theory Spec2Isabelle
  imports
    Main
    "HOL-Library.AList"
    "HOL-Library.Word"
    "HOL-Library.Char_ord"
    "HOL-Library.List_Lexorder"
    "HOL-Library.Product_Lexorder"
begin

section \<open>Values, files and exceptions\<close>

text \<open>
  The collections keep their state in JSON files. A file is modelled by what
  \<^verbatim>\<open>json.load\<close> makes of it: either the text does not parse
  (\<^verbatim>\<open>json.JSONDecodeError\<close>), or it parses to a JSON value. \<open>JObj\<close> holds the
  entries of a Python \<^verbatim>\<open>dict\<close> in insertion order, each key once, \<open>JArr\<close> those
  of a \<^verbatim>\<open>list\<close>. JSON numbers are restricted to integers; Python strings are
  byte lists (UTF-8).
\<close>

datatype json =
    JNull
  | JBool bool
  | JNum int
  | JStr string
  | JArr "json list"
  | JObj "(string \<times> json) list"

datatype file_content = Unparsable | Parsed json

text \<open>
  The file system: the files that exist (\<^verbatim>\<open>os.path.exists\<close>), by path, and the
  paths that cannot be opened for writing (\<^verbatim>\<open>open(path, 'w')\<close> raises
  \<^verbatim>\<open>OSError\<close> there).
\<close>

record fs =
  files :: "string \<rightharpoonup> file_content"
  unwritable :: "string set"

definition fs_write :: "string \<Rightarrow> json \<Rightarrow> fs \<Rightarrow> fs option" where
  \<comment> \<open>\<^verbatim>\<open>with open(path, 'w') as f: json.dump(value, f, indent=4)\<close>; \<open>None\<close> when the
      file cannot be opened.\<close>
  "fs_write path v disk =
     (if path \<in> unwritable disk then None
      else Some (disk\<lparr>files := (files disk)(path \<mapsto> Parsed v)\<rparr>))"

text \<open>
  The exceptions of the program: the Slice exceptions of module \<^verbatim>\<open>RemoteTypes\<close>
  (\<^verbatim>\<open>rt.KeyError\<close>, \<^verbatim>\<open>rt.IndexError\<close>, \<^verbatim>\<open>rt.StopIteration\<close>,
  \<^verbatim>\<open>rt.CancelIteration\<close>), the Python built-ins that escape a method, and the
  exception of Ice for a proxy without a servant. The Slice exceptions carry the string
  they are built with; the message of a built-in is dropped.
\<close>

datatype exn =
    RtKeyError string
  | RtIndexError string
  | RtStopIteration
  | RtCancelIteration
  | PyRuntimeError
  | PyTypeError
  | PyOSError
  | PyOverflowError
  | PyKeyError string
  | IceObjectNotExist

fun exn_name :: "exn \<Rightarrow> string" where
  "exn_name (RtKeyError _) = ''KeyError''"
| "exn_name (RtIndexError _) = ''IndexError''"
| "exn_name RtStopIteration = ''StopIteration''"
| "exn_name RtCancelIteration = ''CancelIteration''"
| "exn_name PyRuntimeError = ''RuntimeError''"
| "exn_name PyTypeError = ''TypeError''"
| "exn_name PyOSError = ''OSError''"
| "exn_name PyOverflowError = ''OverflowError''"
| "exn_name (PyKeyError _) = ''KeyError''"
| "exn_name IceObjectNotExist = ''ObjectNotExistException''"

text \<open>\<^verbatim>\<open>str(i)\<close> for an integer, as the f-strings of the messages format it.\<close>

fun digits10 :: "nat \<Rightarrow> string" where
  "digits10 n =
     (if n < 10 then [''0123456789'' ! n]
      else digits10 (n div 10) @ [''0123456789'' ! (n mod 10)])"

declare digits10.simps [simp del]

definition py_str_int :: "int \<Rightarrow> string" where
  "py_str_int i = (if i < 0 then CHR ''-'' # digits10 (nat (- i)) else digits10 (nat i))"

section \<open>RemoteDict (remotetypes/remotedict.py)\<close>

text \<open>
  \<^verbatim>\<open>_storage_\<close> is a Python \<^verbatim>\<open>dict\<close> from \<^verbatim>\<open>str\<close> to \<^verbatim>\<open>str\<close>: an association
  list in insertion order. Assigning to an existing key keeps its position, a new key
  goes to the end (\<open>AList.update\<close>); deleting removes the entry (\<open>AList.delete\<close>).
\<close>

record RemoteDict =
  rdict_id :: string
  rdict_storage_file :: string
  rdict_storage :: "(string \<times> string) list"
  rdict_modification_count :: int

fun as_str_dict :: "(string \<times> json) list \<Rightarrow> (string \<times> string) list option" where
  "as_str_dict [] = Some []"
| "as_str_dict ((k, JStr v) # kvs) = map_option (Cons (k, v)) (as_str_dict kvs)"
| "as_str_dict (_ # kvs) = None"

definition of_str_dict :: "(string \<times> string) list \<Rightarrow> json" where
  "of_str_dict kvs = JObj (map (\<lambda>(k, v). (k, JStr v)) kvs)"

text \<open>
  \<^verbatim>\<open>_load_data\<close> returns whatever value the file holds. The model follows it where
  that value is a \<^verbatim>\<open>dict\<close> of strings, the state the class is annotated with; any
  other document gives \<open>None\<close>: the instance Python builds from it is not a
  dictionary of strings, and the model says nothing about it.
\<close>

definition RemoteDict_load_data :: "string \<Rightarrow> fs \<Rightarrow> (string \<times> string) list option" where
  "RemoteDict_load_data storage_file disk =
     (case files disk storage_file of
        None \<Rightarrow> Some []
      | Some Unparsable \<Rightarrow> Some []
      | Some (Parsed (JObj kvs)) \<Rightarrow> as_str_dict kvs
      | Some (Parsed _) \<Rightarrow> None)"

definition RemoteDict_init :: "string \<Rightarrow> string \<Rightarrow> fs \<Rightarrow> RemoteDict option" where
  "RemoteDict_init identifier storage_file disk =
     map_option
       (\<lambda>kvs. \<lparr>rdict_id = identifier, rdict_storage_file = storage_file,
               rdict_storage = kvs, rdict_modification_count = 0\<rparr>)
       (RemoteDict_load_data storage_file disk)"

definition RemoteDict_save_data :: "RemoteDict \<Rightarrow> fs \<Rightarrow> exn + fs" where
  \<comment> \<open>every exception of the write is turned into \<^verbatim>\<open>RuntimeError\<close>\<close>
  "RemoteDict_save_data d disk =
     (case fs_write (rdict_storage_file d) (of_str_dict (rdict_storage d)) disk of
        None \<Rightarrow> Inl PyRuntimeError
      | Some disk' \<Rightarrow> Inr disk')"

definition RemoteDict_identifier :: "RemoteDict \<Rightarrow> string" where
  "RemoteDict_identifier d = rdict_id d"

definition RemoteDict_remove ::
    "string \<Rightarrow> RemoteDict \<Rightarrow> fs \<Rightarrow> (exn + unit) \<times> RemoteDict \<times> fs" where
  "RemoteDict_remove key d disk =
     (case map_of (rdict_storage d) key of
        None \<Rightarrow> (Inl (RtKeyError key), d, disk)
      | Some _ \<Rightarrow>
          (let d' = d\<lparr>rdict_storage := AList.delete key (rdict_storage d),
                      rdict_modification_count := rdict_modification_count d + 1\<rparr>
           in case RemoteDict_save_data d' disk of
                Inl e \<Rightarrow> (Inl e, d', disk)
              | Inr disk' \<Rightarrow> (Inr (), d', disk')))"

definition RemoteDict_length :: "RemoteDict \<Rightarrow> int" where
  "RemoteDict_length d = int (length (rdict_storage d))"

definition RemoteDict_contains :: "string \<Rightarrow> RemoteDict \<Rightarrow> bool" where
  "RemoteDict_contains key d = (map_of (rdict_storage d) key \<noteq> None)"

definition RemoteDict_setItem ::
    "string \<Rightarrow> string \<Rightarrow> RemoteDict \<Rightarrow> fs \<Rightarrow> (exn + unit) \<times> RemoteDict \<times> fs" where
  "RemoteDict_setItem key item d disk =
     (let d' = d\<lparr>rdict_storage := AList.update key item (rdict_storage d),
                 rdict_modification_count := rdict_modification_count d + 1\<rparr>
      in case RemoteDict_save_data d' disk of
           Inl e \<Rightarrow> (Inl e, d', disk)
         | Inr disk' \<Rightarrow> (Inr (), d', disk'))"

definition RemoteDict_getItem :: "string \<Rightarrow> RemoteDict \<Rightarrow> exn + string" where
  "RemoteDict_getItem key d =
     (case map_of (rdict_storage d) key of
        None \<Rightarrow> Inl (RtKeyError key)
      | Some v \<Rightarrow> Inr v)"

definition RemoteDict_pop ::
    "string \<Rightarrow> RemoteDict \<Rightarrow> fs \<Rightarrow> (exn + string) \<times> RemoteDict \<times> fs" where
  "RemoteDict_pop key d disk =
     (case map_of (rdict_storage d) key of
        None \<Rightarrow> (Inl (RtKeyError key), d, disk)
      | Some v \<Rightarrow>
          (let d' = d\<lparr>rdict_storage := AList.delete key (rdict_storage d),
                      rdict_modification_count := rdict_modification_count d + 1\<rparr>
           in case RemoteDict_save_data d' disk of
                Inl e \<Rightarrow> (Inl e, d', disk)
              | Inr disk' \<Rightarrow> (Inr v, d', disk')))"

section \<open>RemoteList (remotetypes/remotelist.py)\<close>

record RemoteList =
  rlist_id :: string
  rlist_storage_file :: string
  rlist_modification_count :: int
  rlist_storage :: "string list"

fun as_str_list :: "json list \<Rightarrow> string list option" where
  "as_str_list [] = Some []"
| "as_str_list (JStr x # js) = map_option (Cons x) (as_str_list js)"
| "as_str_list (_ # js) = None"

fun as_list :: "json \<Rightarrow> string list option" where
  "as_list (JArr js) = as_str_list js"
| "as_list _ = None"

definition of_str_list :: "string list \<Rightarrow> json" where
  "of_str_list xs = JArr (map JStr xs)"

text \<open>
  \<^verbatim>\<open>data.get(self.id_, [])\<close>: the entry of this identifier in the file's object, the
  empty list when the file is missing, does not parse or has no such entry. \<open>None\<close>
  when the document is not an object (\<^verbatim>\<open>AttributeError\<close>) or the entry is not a
  list of strings.
\<close>

definition RemoteList_load_data :: "string \<Rightarrow> string \<Rightarrow> fs \<Rightarrow> string list option" where
  "RemoteList_load_data identifier storage_file disk =
     (case files disk storage_file of
        None \<Rightarrow> Some []
      | Some Unparsable \<Rightarrow> Some []
      | Some (Parsed (JObj kvs)) \<Rightarrow>
          (case map_of kvs identifier of None \<Rightarrow> Some [] | Some v \<Rightarrow> as_list v)
      | Some (Parsed _) \<Rightarrow> None)"

definition RemoteList_init :: "string \<Rightarrow> string \<Rightarrow> fs \<Rightarrow> RemoteList option" where
  "RemoteList_init identifier storage_file disk =
     map_option
       (\<lambda>xs. \<lparr>rlist_id = identifier, rlist_storage_file = storage_file,
              rlist_modification_count = 0, rlist_storage = xs\<rparr>)
       (RemoteList_load_data identifier storage_file disk)"

text \<open>
  \<^verbatim>\<open>_save_data\<close> reads the file again, sets the entry of this identifier in the
  object it holds and writes the object back. \<^verbatim>\<open>data[self.id_] = ...\<close> raises
  \<^verbatim>\<open>TypeError\<close> when the document is not an object; that and a failed write are
  turned into \<^verbatim>\<open>RuntimeError\<close>.
\<close>

definition RemoteList_save_data :: "RemoteList \<Rightarrow> fs \<Rightarrow> exn + fs" where
  "RemoteList_save_data l disk =
     (case (case files disk (rlist_storage_file l) of
              None \<Rightarrow> Some []
            | Some Unparsable \<Rightarrow> Some []
            | Some (Parsed (JObj kvs)) \<Rightarrow> Some kvs
            | Some (Parsed _) \<Rightarrow> None) of
        None \<Rightarrow> Inl PyRuntimeError
      | Some data \<Rightarrow>
          (case fs_write (rlist_storage_file l)
                  (JObj (AList.update (rlist_id l) (of_str_list (rlist_storage l)) data)) disk of
             None \<Rightarrow> Inl PyRuntimeError
           | Some disk' \<Rightarrow> Inr disk'))"

definition RemoteList_identifier :: "RemoteList \<Rightarrow> string" where
  "RemoteList_identifier l = rlist_id l"

definition RemoteList_append ::
    "string \<Rightarrow> RemoteList \<Rightarrow> fs \<Rightarrow> (exn + unit) \<times> RemoteList \<times> fs" where
  "RemoteList_append item l disk =
     (let l' = l\<lparr>rlist_storage := rlist_storage l @ [item],
                 rlist_modification_count := rlist_modification_count l + 1\<rparr>
      in case RemoteList_save_data l' disk of
           Inl e \<Rightarrow> (Inl e, l', disk)
         | Inr disk' \<Rightarrow> (Inr (), l', disk'))"

definition RemoteList_remove ::
    "string \<Rightarrow> RemoteList \<Rightarrow> fs \<Rightarrow> (exn + unit) \<times> RemoteList \<times> fs" where
  \<comment> \<open>\<^verbatim>\<open>list.remove\<close> deletes the first occurrence, \<^verbatim>\<open>ValueError\<close> when there is none\<close>
  "RemoteList_remove item l disk =
     (if item \<notin> set (rlist_storage l)
      then (Inl (RtKeyError (''Item '' @ item @ '' not found in list'')), l, disk)
      else
        (let l' = l\<lparr>rlist_storage := remove1 item (rlist_storage l),
                    rlist_modification_count := rlist_modification_count l + 1\<rparr>
         in case RemoteList_save_data l' disk of
              Inl e \<Rightarrow> (Inl e, l', disk)
            | Inr disk' \<Rightarrow> (Inr (), l', disk')))"

definition RemoteList_contains :: "string \<Rightarrow> RemoteList \<Rightarrow> bool" where
  "RemoteList_contains item l = (item \<in> set (rlist_storage l))"

definition RemoteList_length :: "RemoteList \<Rightarrow> int" where
  "RemoteList_length l = int (length (rlist_storage l))"

text \<open>
  Python's list indexing: a negative index counts from the end, and an index outside
  \<open>-n \<le> i < n\<close> raises \<^verbatim>\<open>IndexError\<close> (\<open>None\<close> here). \<^verbatim>\<open>list.pop(index)\<close>
  first converts its argument to a C \<^verbatim>\<open>Py_ssize_t\<close>, 64 bits wide here as
  \<^verbatim>\<open>Py_hash_t\<close> is, and raises \<^verbatim>\<open>OverflowError\<close> for an integer that does not fit;
  \<^verbatim>\<open>list[index]\<close> raises \<^verbatim>\<open>IndexError\<close> for such an integer too.
\<close>

definition fits_ssize_t :: "int \<Rightarrow> bool" where
  "fits_ssize_t i = (- (2 ^ 63) \<le> i \<and> i < 2 ^ 63)"

definition py_index :: "int \<Rightarrow> nat \<Rightarrow> nat option" where
  "py_index i n =
     (let j = (if i < 0 then int n + i else i)
      in if 0 \<le> j \<and> j < int n then Some (nat j) else None)"

definition index_message :: "int option \<Rightarrow> string" where
  \<comment> \<open>\<^verbatim>\<open>f"Index {index} is out of range"\<close>\<close>
  "index_message index =
     ''Index '' @ (case index of None \<Rightarrow> ''None'' | Some i \<Rightarrow> py_str_int i) @ '' is out of range''"

definition RemoteList_getItem :: "int \<Rightarrow> RemoteList \<Rightarrow> exn + string" where
  "RemoteList_getItem index l =
     (case py_index index (length (rlist_storage l)) of
        None \<Rightarrow> Inl (RtIndexError (index_message (Some index)))
      | Some j \<Rightarrow> Inr (rlist_storage l ! j))"

definition RemoteList_pop ::
    "int option \<Rightarrow> RemoteList \<Rightarrow> fs \<Rightarrow> (exn + string) \<times> RemoteList \<times> fs" where
  \<comment> \<open>\<^verbatim>\<open>pop()\<close> takes the last element, \<^verbatim>\<open>pop(index)\<close> the one at the index; only
      \<^verbatim>\<open>IndexError\<close> is caught, so the \<^verbatim>\<open>OverflowError\<close> of \<^verbatim>\<open>list.pop\<close> leaves the
      method as it is\<close>
  "RemoteList_pop index l disk =
     (if (case index of None \<Rightarrow> False | Some i \<Rightarrow> \<not> fits_ssize_t i)
      then (Inl PyOverflowError, l, disk)
      else
        (case (case index of
                 None \<Rightarrow> py_index (- 1) (length (rlist_storage l))
               | Some i \<Rightarrow> py_index i (length (rlist_storage l))) of
           None \<Rightarrow> (Inl (RtIndexError (index_message index)), l, disk)
         | Some j \<Rightarrow>
             (let item = rlist_storage l ! j;
                  l' = l\<lparr>rlist_storage := take j (rlist_storage l) @ drop (Suc j) (rlist_storage l),
                         rlist_modification_count := rlist_modification_count l + 1\<rparr>
              in case RemoteList_save_data l' disk of
                   Inl e \<Rightarrow> (Inl e, l', disk)
                 | Inr disk' \<Rightarrow> (Inr item, l', disk'))))"

section \<open>RemoteSet (remotetypes/remoteset.py)\<close>

text \<open>
  \<^verbatim>\<open>data\<close> is a Python \<^verbatim>\<open>set\<close> of strings. The model keeps its elements as a list
  without repetitions. The order in which a set enumerates its elements
  (\<^verbatim>\<open>list(self.data)\<close>, \<^verbatim>\<open>iter(self.data)\<close>) is the order of its hash table, which the
  program does not fix; the model takes the order of insertion, a new element last, and
  the properties below read \<open>rset_data\<close> through \<open>set\<close> and \<open>length\<close>, or at sets of
  at most one element, where there is one order only. Which element \<^verbatim>\<open>set.pop\<close> takes
  is the hash table's choice too: \<open>RemoteSet_pop\<close> gets it as a number \<open>slot\<close>, and
  takes the element at \<open>slot mod n\<close>, so that every element can be the one taken. The
  class uses the built-in \<^verbatim>\<open>set\<close>, not the \<^verbatim>\<open>StringSet\<close> of
  \<^verbatim>\<open>remotetypes/customset.py\<close>.
\<close>

record RemoteSet =
  rset_identifier :: string
  rset_data :: "string list"
  rset_modification_count :: int
  rset_storage_file :: string

definition GLOBAL_STORAGE_FILE :: string where
  "GLOBAL_STORAGE_FILE = ''remoteset_data.json''"

definition RemoteSet_load_data :: "string \<Rightarrow> string \<Rightarrow> fs \<Rightarrow> string list option" where
  \<comment> \<open>\<^verbatim>\<open>set(storage[self.identifier])\<close> when the identifier has an entry; \<open>None\<close> when the
      document is not an object or the entry is not a list of strings\<close>
  "RemoteSet_load_data identifier storage_file disk =
     (case files disk storage_file of
        None \<Rightarrow> Some []
      | Some Unparsable \<Rightarrow> Some []
      | Some (Parsed (JObj kvs)) \<Rightarrow>
          (case map_of kvs identifier of
             None \<Rightarrow> Some []
           | Some v \<Rightarrow> map_option remdups (as_list v))
      | Some (Parsed _) \<Rightarrow> None)"

definition RemoteSet_init :: "string \<Rightarrow> fs \<Rightarrow> RemoteSet option" where
  "RemoteSet_init identifier disk =
     map_option
       (\<lambda>xs. \<lparr>rset_identifier = identifier, rset_data = xs,
              rset_modification_count = 0, rset_storage_file = GLOBAL_STORAGE_FILE\<rparr>)
       (RemoteSet_load_data identifier GLOBAL_STORAGE_FILE disk)"

definition RemoteSet_save_global_storage :: "RemoteSet \<Rightarrow> fs \<Rightarrow> exn + fs" where
  \<comment> \<open>no exception is caught here but \<^verbatim>\<open>JSONDecodeError\<close>\<close>
  "RemoteSet_save_global_storage s disk =
     (case (case files disk (rset_storage_file s) of
              None \<Rightarrow> Some []
            | Some Unparsable \<Rightarrow> Some []
            | Some (Parsed (JObj kvs)) \<Rightarrow> Some kvs
            | Some (Parsed _) \<Rightarrow> None) of
        None \<Rightarrow> Inl PyTypeError
      | Some storage \<Rightarrow>
          (case fs_write (rset_storage_file s)
                  (JObj (AList.update (rset_identifier s) (of_str_list (rset_data s)) storage)) disk of
             None \<Rightarrow> Inl PyOSError
           | Some disk' \<Rightarrow> Inr disk'))"

definition RemoteSet_add ::
    "string \<Rightarrow> RemoteSet \<Rightarrow> fs \<Rightarrow> (exn + unit) \<times> RemoteSet \<times> fs" where
  "RemoteSet_add item s disk =
     (if item \<notin> set (rset_data s)
      then
        (let s' = s\<lparr>rset_data := rset_data s @ [item],
                    rset_modification_count := rset_modification_count s + 1\<rparr>
         in case RemoteSet_save_global_storage s' disk of
              Inl e \<Rightarrow> (Inl e, s', disk)
            | Inr disk' \<Rightarrow> (Inr (), s', disk'))
      else (Inr (), s, disk))"

definition not_in_set_message :: "string \<Rightarrow> string" where
  \<comment> \<open>\<^verbatim>\<open>f"El elemento '{item}' no existe en el conjunto."\<close>\<close>
  "not_in_set_message item =
     ''El elemento '' @ [CHR 0x27] @ item @ [CHR 0x27] @ '' no existe en el conjunto.''"

definition empty_set_message :: string where
  \<comment> \<open>the message of \<^verbatim>\<open>pop\<close> on an empty set, in UTF-8\<close>
  "empty_set_message =
     ''El conjunto est'' @ [CHR 0xC3, CHR 0xA1] @ '' vac'' @ [CHR 0xC3, CHR 0xAD] @ ''o.''"

definition RemoteSet_remove ::
    "string \<Rightarrow> RemoteSet \<Rightarrow> fs \<Rightarrow> (exn + unit) \<times> RemoteSet \<times> fs" where
  "RemoteSet_remove item s disk =
     (if item \<notin> set (rset_data s)
      then (Inl (RtKeyError (not_in_set_message item)), s, disk)
      else
        (let s' = s\<lparr>rset_data := removeAll item (rset_data s),
                    rset_modification_count := rset_modification_count s + 1\<rparr>
         in case RemoteSet_save_global_storage s' disk of
              Inl e \<Rightarrow> (Inl e, s', disk)
            | Inr disk' \<Rightarrow> (Inr (), s', disk')))"

definition RemoteSet_contains :: "string \<Rightarrow> RemoteSet \<Rightarrow> bool" where
  "RemoteSet_contains item s = (item \<in> set (rset_data s))"

definition RemoteSet_length :: "RemoteSet \<Rightarrow> int" where
  "RemoteSet_length s = int (length (rset_data s))"

definition RemoteSet_pop ::
    "nat \<Rightarrow> RemoteSet \<Rightarrow> fs \<Rightarrow> (exn + string) \<times> RemoteSet \<times> fs" where
  "RemoteSet_pop slot s disk =
     (if rset_data s = []
      then (Inl (RtKeyError empty_set_message), s, disk)
      else
        (let item = rset_data s ! (slot mod length (rset_data s));
             s' = s\<lparr>rset_data := removeAll item (rset_data s),
                    rset_modification_count := rset_modification_count s + 1\<rparr>
         in case RemoteSet_save_global_storage s' disk of
              Inl e \<Rightarrow> (Inl e, s', disk)
            | Inr disk' \<Rightarrow> (Inr item, s', disk')))"

section \<open>\<^verbatim>\<open>hash()\<close>\<close>

text \<open>
  The three \<^verbatim>\<open>hash\<close> methods apply Python's built-in \<^verbatim>\<open>hash\<close> to a tuple or a
  frozenset built from the contents. The built-in is not part of the program: it is a
  parameter \<open>H\<close> here, from the hashed objects to \<^verbatim>\<open>Py_hash_t\<close>, a signed 64-bit
  integer. \<^verbatim>\<open>sorted\<close> orders the \<open>(key, value)\<close> tuples lexicographically, strings by
  their characters. \<open>H\<close> is one function for one run of the interpreter (Python seeds
  the hash of strings anew for each process).
\<close>

datatype hashable =
    HStr string
  | HTuple "hashable list"
  | HFrozenset "string set"

definition items_tuple :: "(string \<times> string) list \<Rightarrow> hashable" where
  "items_tuple kvs = HTuple (map (\<lambda>(k, v). HTuple [HStr k, HStr v]) kvs)"

definition RemoteDict_hash :: "(hashable \<Rightarrow> 64 word) \<Rightarrow> RemoteDict \<Rightarrow> int" where
  \<comment> \<open>\<^verbatim>\<open>hash(tuple(sorted(self._storage_.items())))\<close>\<close>
  "RemoteDict_hash H d = sint (H (items_tuple (sort (rdict_storage d))))"

definition RemoteList_hash :: "(hashable \<Rightarrow> 64 word) \<Rightarrow> RemoteList \<Rightarrow> int" where
  \<comment> \<open>\<^verbatim>\<open>hash(tuple(self._storage_))\<close>\<close>
  "RemoteList_hash H l = sint (H (HTuple (map HStr (rlist_storage l))))"

definition RemoteSet_hash :: "(hashable \<Rightarrow> 64 word) \<Rightarrow> RemoteSet \<Rightarrow> int" where
  \<comment> \<open>\<^verbatim>\<open>hash(frozenset(self.data))\<close>\<close>
  "RemoteSet_hash H s = sint (H (HFrozenset (set (rset_data s))))"

section \<open>Iterators\<close>

text \<open>
  The iterator classes wrap Python's built-in iterators, which refer to the live
  container. A list iterator keeps an index and yields the element there until the index
  reaches the length. The iterators of \<^verbatim>\<open>dict.items()\<close> and of a \<^verbatim>\<open>set\<close> also
  remember the size of the container at their creation and raise \<^verbatim>\<open>RuntimeError\<close>
  ("changed size during iteration") when the size is another one; after that the
  remembered size is \<open>-1\<close>. An iterator that has reported its end stays at its end.
  The iterator of a set walks the slots of the hash table; the model walks the list that
  stands for the set, and is used below at sets of at most one element, where the two
  walks yield the same.

  An iterator object holds a reference to its collection, so \<^verbatim>\<open>next\<close> takes the
  current state of the collection here. The methods \<^verbatim>\<open>iter\<close> also register the
  iterator with the Ice adapter of the call, which the model leaves out. The classes of
  \<^verbatim>\<open>remotetypes/iterable.py\<close> are used by none of the three collections: each
  module defines the iterator it builds.
\<close>

record py_iterator =
  it_index :: nat
  it_used :: int
  it_done :: bool

definition py_iter :: "'a list \<Rightarrow> py_iterator" where
  "py_iter xs = \<lparr>it_index = 0, it_used = int (length xs), it_done = False\<rparr>"

definition list_next :: "'a list \<Rightarrow> py_iterator \<Rightarrow> 'a option \<times> py_iterator" where
  \<comment> \<open>\<open>None\<close> is the built-in \<^verbatim>\<open>StopIteration\<close>\<close>
  "list_next xs it =
     (if it_done it then (None, it)
      else if it_index it < length xs
        then (Some (xs ! it_index it), it\<lparr>it_index := it_index it + 1\<rparr>)
      else (None, it\<lparr>it_done := True\<rparr>))"

definition sized_next :: "'a list \<Rightarrow> py_iterator \<Rightarrow> (exn + 'a option) \<times> py_iterator" where
  "sized_next xs it =
     (if it_done it then (Inr None, it)
      else if it_used it \<noteq> int (length xs) then (Inl PyRuntimeError, it\<lparr>it_used := - 1\<rparr>)
      else if it_index it < length xs
        then (Inr (Some (xs ! it_index it)), it\<lparr>it_index := it_index it + 1\<rparr>)
      else (Inr None, it\<lparr>it_done := True\<rparr>))"

record DictIterator =
  di_expected_mod_count :: int
  di_iterator :: py_iterator

definition DictIterator_init :: "RemoteDict \<Rightarrow> int \<Rightarrow> DictIterator" where
  "DictIterator_init remote_dict expected_mod_count =
     \<lparr>di_expected_mod_count = expected_mod_count,
      di_iterator = py_iter (rdict_storage remote_dict)\<rparr>"

definition RemoteDict_iter :: "RemoteDict \<Rightarrow> DictIterator" where
  "RemoteDict_iter d = DictIterator_init d (rdict_modification_count d)"

definition DictIterator_next :: "RemoteDict \<Rightarrow> DictIterator \<Rightarrow> (exn + string) \<times> DictIterator" where
  "DictIterator_next d it =
     (if di_expected_mod_count it \<noteq> rdict_modification_count d then (Inl RtCancelIteration, it)
      else
        (case sized_next (rdict_storage d) (di_iterator it) of
           (Inl e, i) \<Rightarrow> (Inl e, it\<lparr>di_iterator := i\<rparr>)
         | (Inr None, i) \<Rightarrow> (Inl RtStopIteration, it\<lparr>di_iterator := i\<rparr>)
         | (Inr (Some (key, val)), i) \<Rightarrow> (Inr (key @ '': '' @ val), it\<lparr>di_iterator := i\<rparr>)))"

record ListIterator =
  li_expected_mod_count :: int
  li_iterator :: py_iterator

definition ListIterator_init :: "RemoteList \<Rightarrow> int \<Rightarrow> ListIterator" where
  "ListIterator_init remote_list expected_mod_count =
     \<lparr>li_expected_mod_count = expected_mod_count,
      li_iterator = py_iter (rlist_storage remote_list)\<rparr>"

definition RemoteList_iter :: "RemoteList \<Rightarrow> ListIterator" where
  "RemoteList_iter l = ListIterator_init l (rlist_modification_count l)"

definition ListIterator_next :: "RemoteList \<Rightarrow> ListIterator \<Rightarrow> (exn + string) \<times> ListIterator" where
  "ListIterator_next l it =
     (if li_expected_mod_count it \<noteq> rlist_modification_count l then (Inl RtCancelIteration, it)
      else
        (case list_next (rlist_storage l) (li_iterator it) of
           (None, i) \<Rightarrow> (Inl RtStopIteration, it\<lparr>li_iterator := i\<rparr>)
         | (Some x, i) \<Rightarrow> (Inr x, it\<lparr>li_iterator := i\<rparr>)))"

text \<open>
  \<^verbatim>\<open>RemoteSetIterator\<close> keeps the built-in iterator only: no counter is stored, and
  \<^verbatim>\<open>next\<close> turns the built-in's \<^verbatim>\<open>RuntimeError\<close> into \<^verbatim>\<open>CancelIteration\<close>.
\<close>

record RemoteSetIterator =
  si_iterator :: py_iterator

definition RemoteSetIterator_init :: "RemoteSet \<Rightarrow> RemoteSetIterator" where
  "RemoteSetIterator_init remote_set = \<lparr>si_iterator = py_iter (rset_data remote_set)\<rparr>"

definition RemoteSet_iter :: "RemoteSet \<Rightarrow> RemoteSetIterator" where
  "RemoteSet_iter s = RemoteSetIterator_init s"

definition RemoteSetIterator_next ::
    "RemoteSet \<Rightarrow> RemoteSetIterator \<Rightarrow> (exn + string) \<times> RemoteSetIterator" where
  "RemoteSetIterator_next s it =
     (case sized_next (rset_data s) (si_iterator it) of
        (Inr (Some next_item), i) \<Rightarrow> (Inr next_item, it\<lparr>si_iterator := i\<rparr>)
      | (Inr None, i) \<Rightarrow> (Inl RtStopIteration, it\<lparr>si_iterator := i\<rparr>)
      | (Inl e, i) \<Rightarrow>
          (Inl (if e = PyRuntimeError then RtCancelIteration else e), it\<lparr>si_iterator := i\<rparr>))"

section \<open>Factory (remotetypes/factory.py)\<close>

text \<open>
  The server process: the three caches of the \<^verbatim>\<open>Factory\<close> and the file system. A
  cache maps an identifier to a proxy; the proxy stands for the one servant object
  registered with the adapter, so the model keeps the servant's state under the
  identifier and a proxy is the cache (by type) and the identifier. A call through a
  proxy runs the method on that state and stores what it leaves.

  \<^verbatim>\<open>TypeName\<close> is the Slice enumeration of the three types, so the last branch of
  \<^verbatim>\<open>Factory.get\<close>, which raises \<^verbatim>\<open>ValueError\<close> for any other type, has no input.
  The constructors do not write, and \<^verbatim>\<open>Factory.get\<close> does not either: the functions
  return the server with the file system it had.
\<close>

datatype TypeName = RDict | RList | RSet

datatype proxy = RDictPrx string | RListPrx string | RSetPrx string

record server =
  rdicts :: "string \<rightharpoonup> RemoteDict"
  rlists :: "string \<rightharpoonup> RemoteList"
  rsets :: "string \<rightharpoonup> RemoteSet"
  disk :: fs

definition STORAGE_PATH :: string where
  "STORAGE_PATH = ''storage''"

definition rdict_path :: "string \<Rightarrow> string" where
  \<comment> \<open>\<^verbatim>\<open>os.path.join(self.STORAGE_PATH, f"rdict_{identifier}.json")\<close>\<close>
  "rdict_path identifier = STORAGE_PATH @ ''/'' @ ''rdict_'' @ identifier @ ''.json''"

definition rlist_path :: "string \<Rightarrow> string" where
  "rlist_path identifier = STORAGE_PATH @ ''/'' @ ''rlist_'' @ identifier @ ''.json''"

definition Factory_init :: "fs \<Rightarrow> server" where
  "Factory_init d = \<lparr>rdicts = Map.empty, rlists = Map.empty, rsets = Map.empty, disk = d\<rparr>"

definition Factory_get_rdict :: "string \<Rightarrow> server \<Rightarrow> (proxy \<times> server) option" where
  "Factory_get_rdict identifier w =
     (if rdicts w identifier = None
      then
        (case RemoteDict_init identifier (rdict_path identifier) (disk w) of
           None \<Rightarrow> None
         | Some rdict \<Rightarrow> Some (RDictPrx identifier, w\<lparr>rdicts := (rdicts w)(identifier \<mapsto> rdict)\<rparr>))
      else Some (RDictPrx identifier, w))"

definition Factory_get_rlist :: "string \<Rightarrow> server \<Rightarrow> (proxy \<times> server) option" where
  "Factory_get_rlist identifier w =
     (if rlists w identifier = None
      then
        (case RemoteList_init identifier (rlist_path identifier) (disk w) of
           None \<Rightarrow> None
         | Some rlist \<Rightarrow> Some (RListPrx identifier, w\<lparr>rlists := (rlists w)(identifier \<mapsto> rlist)\<rparr>))
      else Some (RListPrx identifier, w))"

definition Factory_get_rset :: "string \<Rightarrow> server \<Rightarrow> (proxy \<times> server) option" where
  "Factory_get_rset identifier w =
     (if rsets w identifier = None
      then
        (case RemoteSet_init identifier (disk w) of
           None \<Rightarrow> None
         | Some rset \<Rightarrow> Some (RSetPrx identifier, w\<lparr>rsets := (rsets w)(identifier \<mapsto> rset)\<rparr>))
      else Some (RSetPrx identifier, w))"

definition py_or :: "string option \<Rightarrow> string \<Rightarrow> string" where
  \<comment> \<open>\<^verbatim>\<open>identifier or default\<close>: \<^verbatim>\<open>None\<close> and the empty string are false\<close>
  "py_or identifier dflt =
     (case identifier of None \<Rightarrow> dflt | Some s \<Rightarrow> if s = [] then dflt else s)"

fun Factory_get :: "TypeName \<Rightarrow> string option \<Rightarrow> server \<Rightarrow> (proxy \<times> server) option" where
  "Factory_get RDict identifier w = Factory_get_rdict (py_or identifier ''default_rdict'') w"
| "Factory_get RList identifier w = Factory_get_rlist (py_or identifier ''default_rlist'') w"
| "Factory_get RSet identifier w = Factory_get_rset (py_or identifier ''default_rset'') w"

text \<open>Calls through a proxy.\<close>

definition with_rdict ::
    "string \<Rightarrow> (RemoteDict \<Rightarrow> fs \<Rightarrow> (exn + 'a) \<times> RemoteDict \<times> fs) \<Rightarrow> server \<Rightarrow> (exn + 'a) \<times> server" where
  "with_rdict i f w =
     (case rdicts w i of
        None \<Rightarrow> (Inl IceObjectNotExist, w)
      | Some d \<Rightarrow>
          (case f d (disk w) of
             (r, d', disk') \<Rightarrow> (r, w\<lparr>rdicts := (rdicts w)(i \<mapsto> d'), disk := disk'\<rparr>)))"

definition with_rlist ::
    "string \<Rightarrow> (RemoteList \<Rightarrow> fs \<Rightarrow> (exn + 'a) \<times> RemoteList \<times> fs) \<Rightarrow> server \<Rightarrow> (exn + 'a) \<times> server" where
  "with_rlist i f w =
     (case rlists w i of
        None \<Rightarrow> (Inl IceObjectNotExist, w)
      | Some l \<Rightarrow>
          (case f l (disk w) of
             (r, l', disk') \<Rightarrow> (r, w\<lparr>rlists := (rlists w)(i \<mapsto> l'), disk := disk'\<rparr>)))"

definition with_rset ::
    "string \<Rightarrow> (RemoteSet \<Rightarrow> fs \<Rightarrow> (exn + 'a) \<times> RemoteSet \<times> fs) \<Rightarrow> server \<Rightarrow> (exn + 'a) \<times> server" where
  "with_rset i f w =
     (case rsets w i of
        None \<Rightarrow> (Inl IceObjectNotExist, w)
      | Some s \<Rightarrow>
          (case f s (disk w) of
             (r, s', disk') \<Rightarrow> (r, w\<lparr>rsets := (rsets w)(i \<mapsto> s'), disk := disk'\<rparr>)))"

definition query :: "('s \<Rightarrow> 'a) \<Rightarrow> 's \<Rightarrow> fs \<Rightarrow> (exn + 'a) \<times> 's \<times> fs" where
  \<comment> \<open>a method that reads the state only\<close>
  "query f st d = (Inr (f st), st, d)"

definition partial_query :: "('s \<Rightarrow> exn + 'a) \<Rightarrow> 's \<Rightarrow> fs \<Rightarrow> (exn + 'a) \<times> 's \<times> fs" where
  "partial_query f st d = (f st, st, d)"

text \<open>
  \<^verbatim>\<open>RemoteSet\<close> defines no method \<^verbatim>\<open>identifier\<close>: its constructor stores the
  identifier string under that name, and calling a string raises \<^verbatim>\<open>TypeError\<close>.
  An exception of a remote call keeps the name it has in the server (a caller sees
  those that are no Slice exceptions as Ice's \<^verbatim>\<open>UnknownException\<close>). An argument
  reaches the method as the caller gave it: the Slice definitions and what the Ice run
  time does with an integer outside the range of its Slice type are not in the
  repository.
\<close>

fun prx_identifier :: "proxy \<Rightarrow> server \<Rightarrow> (exn + string) \<times> server" where
  "prx_identifier (RDictPrx i) w = with_rdict i (query RemoteDict_identifier) w"
| "prx_identifier (RListPrx i) w = with_rlist i (query RemoteList_identifier) w"
| "prx_identifier (RSetPrx i) w = with_rset i (\<lambda>s d. (Inl PyTypeError, s, d)) w"

fun prx_remove :: "proxy \<Rightarrow> string \<Rightarrow> server \<Rightarrow> (exn + unit) \<times> server" where
  "prx_remove (RDictPrx i) item w = with_rdict i (RemoteDict_remove item) w"
| "prx_remove (RListPrx i) item w = with_rlist i (RemoteList_remove item) w"
| "prx_remove (RSetPrx i) item w = with_rset i (RemoteSet_remove item) w"

fun prx_length :: "proxy \<Rightarrow> server \<Rightarrow> (exn + int) \<times> server" where
  "prx_length (RDictPrx i) w = with_rdict i (query RemoteDict_length) w"
| "prx_length (RListPrx i) w = with_rlist i (query RemoteList_length) w"
| "prx_length (RSetPrx i) w = with_rset i (query RemoteSet_length) w"

fun prx_contains :: "proxy \<Rightarrow> string \<Rightarrow> server \<Rightarrow> (exn + bool) \<times> server" where
  "prx_contains (RDictPrx i) item w = with_rdict i (query (RemoteDict_contains item)) w"
| "prx_contains (RListPrx i) item w = with_rlist i (query (RemoteList_contains item)) w"
| "prx_contains (RSetPrx i) item w = with_rset i (query (RemoteSet_contains item)) w"

fun prx_hash :: "(hashable \<Rightarrow> 64 word) \<Rightarrow> proxy \<Rightarrow> server \<Rightarrow> (exn + int) \<times> server" where
  "prx_hash H (RDictPrx i) w = with_rdict i (query (RemoteDict_hash H)) w"
| "prx_hash H (RListPrx i) w = with_rlist i (query (RemoteList_hash H)) w"
| "prx_hash H (RSetPrx i) w = with_rset i (query (RemoteSet_hash H)) w"

section \<open>The dispatcher (kafka_client.py)\<close>

text \<open>
  An operation descriptor is a JSON object, a reply of \<^verbatim>\<open>hacer_evento\<close> the pair
  \<^verbatim>\<open>(result, error)\<close>, each \<^verbatim>\<open>None\<close> or a value. The remote methods take strings
  (\<^verbatim>\<open>item\<close>, \<^verbatim>\<open>key\<close>, the object identifier) and an integer (\<^verbatim>\<open>index\<close>); the
  functions of this section give \<open>None\<close> for a descriptor whose arguments have another
  JSON type, about which the model says nothing. The Python runtime decides two things
  the program leaves open: the built-in \<^verbatim>\<open>hash\<close> and the element \<^verbatim>\<open>set.pop\<close> takes.
  A payload that does not decode is dropped before the loop over its descriptors; the
  model starts from the decoded list.
\<close>

type_synonym event = "(string \<times> json) list"

type_synonym reply = "json option \<times> string option"

record python =
  py_hash :: "hashable \<Rightarrow> 64 word"
  py_set_pop :: "string list \<Rightarrow> nat"

definition arg_str :: "json \<Rightarrow> string \<Rightarrow> (exn + string) option" where
  \<comment> \<open>\<^verbatim>\<open>args[name]\<close>, a string\<close>
  "arg_str args name =
     (case args of
        JObj kvs \<Rightarrow>
          (case map_of kvs name of
             None \<Rightarrow> Some (Inl (PyKeyError name))
           | Some (JStr x) \<Rightarrow> Some (Inr x)
           | Some _ \<Rightarrow> None)
      | _ \<Rightarrow> None)"

definition arg_int :: "json \<Rightarrow> string \<Rightarrow> (exn + int) option" where
  \<comment> \<open>\<^verbatim>\<open>int(args[name])\<close>, of an integer\<close>
  "arg_int args name =
     (case args of
        JObj kvs \<Rightarrow>
          (case map_of kvs name of
             None \<Rightarrow> Some (Inl (PyKeyError name))
           | Some (JNum n) \<Rightarrow> Some (Inr n)
           | Some _ \<Rightarrow> None)
      | _ \<Rightarrow> None)"

definition has_arg :: "json \<Rightarrow> string \<Rightarrow> bool option" where
  \<comment> \<open>\<^verbatim>\<open>name in args\<close>\<close>
  "has_arg args name = (case args of JObj kvs \<Rightarrow> Some (map_of kvs name \<noteq> None) | _ \<Rightarrow> None)"

definition with_arg ::
    "(exn + 'a) option \<Rightarrow> server \<Rightarrow> ('a \<Rightarrow> ((exn + reply) \<times> server) option)
      \<Rightarrow> ((exn + reply) \<times> server) option" where
  \<comment> \<open>an argument is evaluated before the call: its exception leaves the server as it is\<close>
  "with_arg a w k =
     (case a of None \<Rightarrow> None | Some (Inl e) \<Rightarrow> Some (Inl e, w) | Some (Inr v) \<Rightarrow> k v)"

definition returning :: "('a \<Rightarrow> json option) \<Rightarrow> (exn + 'a) \<times> server \<Rightarrow> (exn + reply) \<times> server" where
  \<comment> \<open>the reply \<^verbatim>\<open>(result, None)\<close> of a call that returned; an exception goes on\<close>
  "returning f rw =
     (case rw of (Inl e, w) \<Rightarrow> (Inl e, w) | (Inr v, w) \<Rightarrow> (Inr (f v, None), w))"

definition get_rtype_proxy :: "server \<Rightarrow> json \<Rightarrow> json \<Rightarrow> (proxy option \<times> server) option" where
  "get_rtype_proxy w obj_type obj_identifier =
     (if obj_type = JStr ''RList'' then
        (case obj_identifier of
           JStr i \<Rightarrow> map_option (\<lambda>(p, w'). (Some p, w')) (Factory_get RList (Some i) w)
         | _ \<Rightarrow> None)
      else if obj_type = JStr ''RDict'' then
        (case obj_identifier of
           JStr i \<Rightarrow> map_option (\<lambda>(p, w'). (Some p, w')) (Factory_get RDict (Some i) w)
         | _ \<Rightarrow> None)
      else if obj_type = JStr ''RSet'' then
        (case obj_identifier of
           JStr i \<Rightarrow> map_option (\<lambda>(p, w'). (Some p, w')) (Factory_get RSet (Some i) w)
         | _ \<Rightarrow> None)
      else Some (None, w))"

definition process_common_operation ::
    "python \<Rightarrow> proxy \<Rightarrow> json \<Rightarrow> json \<Rightarrow> server \<Rightarrow> ((exn + reply) \<times> server) option" where
  "process_common_operation py rtype_prx operation args w =
     (if operation = JStr ''identifier'' then
        Some (returning (\<lambda>x. Some (JStr x)) (prx_identifier rtype_prx w))
      else if operation = JStr ''remove'' then
        with_arg (arg_str args ''item'') w
          (\<lambda>item. Some (returning (\<lambda>_. None) (prx_remove rtype_prx item w)))
      else if operation = JStr ''length'' then
        Some (returning (\<lambda>n. Some (JNum n)) (prx_length rtype_prx w))
      else if operation = JStr ''contains'' then
        with_arg (arg_str args ''item'') w
          (\<lambda>item. Some (returning (\<lambda>b. Some (JBool b)) (prx_contains rtype_prx item w)))
      else if operation = JStr ''hash'' then
        Some (returning (\<lambda>n. Some (JNum n)) (prx_hash (py_hash py) rtype_prx w))
      else if operation = JStr ''iter'' then
        Some (Inr (None, Some ''OperationNotSupported''), w)
      else Some (Inr (None, None), w))"

fun process_rlist :: "proxy \<Rightarrow> json \<Rightarrow> json \<Rightarrow> server \<Rightarrow> ((exn + reply) \<times> server) option" where
  "process_rlist (RListPrx i) operation args w =
     (if operation = JStr ''append'' then
        with_arg (arg_str args ''item'') w
          (\<lambda>item. Some (returning (\<lambda>_. None) (with_rlist i (RemoteList_append item) w)))
      else if operation = JStr ''pop'' then
        (case has_arg args ''index'' of
           None \<Rightarrow> None
         | Some True \<Rightarrow>
             with_arg (arg_int args ''index'') w
               (\<lambda>index. Some (returning (\<lambda>_. None) (with_rlist i (RemoteList_pop (Some index)) w)))
         | Some False \<Rightarrow> Some (returning (\<lambda>_. None) (with_rlist i (RemoteList_pop None) w)))
      else if operation = JStr ''getItem'' then
        with_arg (arg_int args ''index'') w
          (\<lambda>index. Some (returning (\<lambda>x. Some (JStr x))
             (with_rlist i (partial_query (RemoteList_getItem index)) w)))
      else Some (Inr (None, None), w))"
| "process_rlist _ operation args w = None"

fun process_rdict :: "proxy \<Rightarrow> json \<Rightarrow> json \<Rightarrow> server \<Rightarrow> ((exn + reply) \<times> server) option" where
  "process_rdict (RDictPrx i) operation args w =
     (if operation = JStr ''setItem'' then
        with_arg (arg_str args ''key'') w
          (\<lambda>key. with_arg (arg_str args ''item'') w
             (\<lambda>item. Some (returning (\<lambda>_. None) (with_rdict i (RemoteDict_setItem key item) w))))
      else if operation = JStr ''getItem'' then
        with_arg (arg_str args ''key'') w
          (\<lambda>key. Some (returning (\<lambda>x. Some (JStr x))
             (with_rdict i (partial_query (RemoteDict_getItem key)) w)))
      else if operation = JStr ''pop'' then
        with_arg (arg_str args ''key'') w
          (\<lambda>key. Some (returning (\<lambda>_. None) (with_rdict i (RemoteDict_pop key) w)))
      else Some (Inr (None, None), w))"
| "process_rdict _ operation args w = None"

fun process_rset ::
    "python \<Rightarrow> proxy \<Rightarrow> json \<Rightarrow> json \<Rightarrow> server \<Rightarrow> ((exn + reply) \<times> server) option" where
  "process_rset py (RSetPrx i) operation args w =
     (if operation = JStr ''add'' then
        with_arg (arg_str args ''item'') w
          (\<lambda>item. Some (returning (\<lambda>_. None) (with_rset i (RemoteSet_add item) w)))
      else if operation = JStr ''pop'' then
        Some (returning (\<lambda>_. None)
                (with_rset i (\<lambda>s. RemoteSet_pop (py_set_pop py (rset_data s)) s) w))
      else Some (Inr (None, None), w))"
| "process_rset py _ operation args w = None"

text \<open>
  \<^verbatim>\<open>hacer_evento\<close>: the four required keys, the proxy, the common operations, then
  the operations of the object's type. No exception is caught: one raised by a remote
  call leaves \<^verbatim>\<open>hacer_evento\<close> and the loop that called it.
\<close>

definition hacer_evento :: "python \<Rightarrow> server \<Rightarrow> event \<Rightarrow> ((exn + reply) \<times> server) option" where
  "hacer_evento py w event =
     (case (map_of event ''id'', map_of event ''object_type'',
            map_of event ''object_identifier'', map_of event ''operation'') of
        (Some _, Some obj_type, Some obj_identifier, Some operation) \<Rightarrow>
          (let args = (case map_of event ''args'' of None \<Rightarrow> JObj [] | Some a \<Rightarrow> a) in
           case get_rtype_proxy w obj_type obj_identifier of
             None \<Rightarrow> None
           | Some (None, w1) \<Rightarrow> Some (Inr (None, Some ''UnknownObjectType''), w1)
           | Some (Some rtype_prx, w1) \<Rightarrow>
               (case process_common_operation py rtype_prx operation args w1 of
                  None \<Rightarrow> None
                | Some (Inl e, w2) \<Rightarrow> Some (Inl e, w2)
                | Some (Inr (result, error), w2) \<Rightarrow>
                    if result \<noteq> None \<or> error \<noteq> None then Some (Inr (result, error), w2)
                    else if obj_type = JStr ''RList'' then process_rlist rtype_prx operation args w2
                    else if obj_type = JStr ''RDict'' then process_rdict rtype_prx operation args w2
                    else if obj_type = JStr ''RSet'' then process_rset py rtype_prx operation args w2
                    else Some (Inr (None, Some ''UnknownObjectType''), w2)))
      | _ \<Rightarrow> Some (Inr (None, Some ''MalformedOperation''), w))"

text \<open>
  The body of the loop over a batch in \<^verbatim>\<open>consume_and_process_messages\<close>: the
  records one descriptor adds to \<^verbatim>\<open>message\<close>. \<^verbatim>\<open>if error:\<close> holds for a string that
  is not empty; \<^verbatim>\<open>op["id"]\<close> raises the built-in \<^verbatim>\<open>KeyError\<close> on a missing key.
\<close>

definition respond :: "event \<Rightarrow> reply \<Rightarrow> exn + json list" where
  "respond op r =
     (case r of
        (result, Some (c # cs)) \<Rightarrow>
          (case map_of op ''id'' of
             None \<Rightarrow> Inr []
           | Some JNull \<Rightarrow> Inr []
           | Some i \<Rightarrow>
               Inr [JObj [(''id'', i), (''status'', JStr ''error''), (''error'', JStr (c # cs))]])
      | (result, _) \<Rightarrow>
          (case map_of op ''id'' of
             None \<Rightarrow> Inl (PyKeyError ''id'')
           | Some i \<Rightarrow>
               (case result of
                  Some v \<Rightarrow> Inr [JObj [(''id'', i), (''status'', JStr ''ok''), (''result'', v)]]
                | None \<Rightarrow> Inr [JObj [(''id'', i), (''status'', JStr ''ok'')]])))"

fun process_events ::
    "python \<Rightarrow> event list \<Rightarrow> json list \<Rightarrow> server \<Rightarrow> ((exn + json list) \<times> server) option" where
  "process_events py [] message w = Some (Inr message, w)"
| "process_events py (op # ops) message w =
     (case hacer_evento py w op of
        None \<Rightarrow> None
      | Some (Inl e, w') \<Rightarrow> Some (Inl e, w')
      | Some (Inr r, w') \<Rightarrow>
          (case respond op r of
             Inl e \<Rightarrow> Some (Inl e, w')
           | Inr records \<Rightarrow> process_events py ops (message @ records) w'))"

definition handle_batch ::
    "python \<Rightarrow> event list \<Rightarrow> server \<Rightarrow> ((exn + json list option) \<times> server) option" where
  \<comment> \<open>what is published for one decoded batch: nothing when \<^verbatim>\<open>message\<close> is empty\<close>
  "handle_batch py event_list w =
     (case process_events py event_list [] w of
        None \<Rightarrow> None
      | Some (Inl e, w') \<Rightarrow> Some (Inl e, w')
      | Some (Inr message, w') \<Rightarrow> Some (Inr (if message = [] then None else Some message), w'))"

section \<open>What the claims need beside the program\<close>

text \<open>The errors the spec calls not-found errors: a missing key, index or element.\<close>

definition not_found_class :: "exn \<Rightarrow> bool" where
  "not_found_class e =
     (case e of RtKeyError _ \<Rightarrow> True | RtIndexError _ \<Rightarrow> True | _ \<Rightarrow> False)"

definition empty_disk :: fs where
  "empty_disk = \<lparr>files = Map.empty, unwritable = {}\<rparr>"

text \<open>
  Sequences of mutating calls on one instance. A call is run for the state it leaves,
  whether it returns or raises; \<open>*_changes\<close> counts the calls of a sequence that left
  other contents than they found, \<open>dict_bumps\<close> those that did so or were a
  \<^verbatim>\<open>setItem\<close>.
\<close>

datatype dict_call = DictSetItem string string | DictRemove string | DictPop string

datatype list_call = ListAppend string | ListRemove string | ListPop "int option"

datatype set_call = SetAdd string | SetRemove string | SetPop nat

fun dict_step :: "dict_call \<Rightarrow> RemoteDict \<times> fs \<Rightarrow> RemoteDict \<times> fs" where
  "dict_step (DictSetItem key item) (d, dk) = snd (RemoteDict_setItem key item d dk)"
| "dict_step (DictRemove key) (d, dk) = snd (RemoteDict_remove key d dk)"
| "dict_step (DictPop key) (d, dk) = snd (RemoteDict_pop key d dk)"

fun list_step :: "list_call \<Rightarrow> RemoteList \<times> fs \<Rightarrow> RemoteList \<times> fs" where
  "list_step (ListAppend item) (l, dk) = snd (RemoteList_append item l dk)"
| "list_step (ListRemove item) (l, dk) = snd (RemoteList_remove item l dk)"
| "list_step (ListPop index) (l, dk) = snd (RemoteList_pop index l dk)"

fun set_step :: "set_call \<Rightarrow> RemoteSet \<times> fs \<Rightarrow> RemoteSet \<times> fs" where
  "set_step (SetAdd item) (s, dk) = snd (RemoteSet_add item s dk)"
| "set_step (SetRemove item) (s, dk) = snd (RemoteSet_remove item s dk)"
| "set_step (SetPop slot) (s, dk) = snd (RemoteSet_pop slot s dk)"

fun dict_run :: "dict_call list \<Rightarrow> RemoteDict \<times> fs \<Rightarrow> RemoteDict \<times> fs" where
  "dict_run [] st = st"
| "dict_run (c # cs) st = dict_run cs (dict_step c st)"

fun list_run :: "list_call list \<Rightarrow> RemoteList \<times> fs \<Rightarrow> RemoteList \<times> fs" where
  "list_run [] st = st"
| "list_run (c # cs) st = list_run cs (list_step c st)"

fun set_run :: "set_call list \<Rightarrow> RemoteSet \<times> fs \<Rightarrow> RemoteSet \<times> fs" where
  "set_run [] st = st"
| "set_run (c # cs) st = set_run cs (set_step c st)"

fun dict_changes :: "dict_call list \<Rightarrow> RemoteDict \<times> fs \<Rightarrow> nat" where
  "dict_changes [] st = 0"
| "dict_changes (c # cs) st =
     (if rdict_storage (fst (dict_step c st)) \<noteq> rdict_storage (fst st) then 1 else 0)
       + dict_changes cs (dict_step c st)"

fun is_setItem :: "dict_call \<Rightarrow> bool" where
  "is_setItem (DictSetItem key item) = True"
| "is_setItem _ = False"

fun dict_bumps :: "dict_call list \<Rightarrow> RemoteDict \<times> fs \<Rightarrow> nat" where
  "dict_bumps [] st = 0"
| "dict_bumps (c # cs) st =
     (if is_setItem c \<or> rdict_storage (fst (dict_step c st)) \<noteq> rdict_storage (fst st)
      then 1 else 0)
       + dict_bumps cs (dict_step c st)"

fun list_changes :: "list_call list \<Rightarrow> RemoteList \<times> fs \<Rightarrow> nat" where
  "list_changes [] st = 0"
| "list_changes (c # cs) st =
     (if rlist_storage (fst (list_step c st)) \<noteq> rlist_storage (fst st) then 1 else 0)
       + list_changes cs (list_step c st)"

fun set_changes :: "set_call list \<Rightarrow> RemoteSet \<times> fs \<Rightarrow> nat" where
  "set_changes [] st = 0"
| "set_changes (c # cs) st =
     (if rset_data (fst (set_step c st)) \<noteq> rset_data (fst st) then 1 else 0)
       + set_changes cs (set_step c st)"

text \<open>The exception a call raised, \<open>None\<close> for a call that returned.\<close>

definition raised :: "(exn + 'a) \<times> 's \<Rightarrow> exn option" where
  "raised r = (case fst r of Inl e \<Rightarrow> Some e | Inr v \<Rightarrow> None)"

fun dict_raised :: "dict_call \<Rightarrow> RemoteDict \<times> fs \<Rightarrow> exn option" where
  "dict_raised (DictSetItem key item) (d, dk) = raised (RemoteDict_setItem key item d dk)"
| "dict_raised (DictRemove key) (d, dk) = raised (RemoteDict_remove key d dk)"
| "dict_raised (DictPop key) (d, dk) = raised (RemoteDict_pop key d dk)"

fun list_raised :: "list_call \<Rightarrow> RemoteList \<times> fs \<Rightarrow> exn option" where
  "list_raised (ListAppend item) (l, dk) = raised (RemoteList_append item l dk)"
| "list_raised (ListRemove item) (l, dk) = raised (RemoteList_remove item l dk)"
| "list_raised (ListPop index) (l, dk) = raised (RemoteList_pop index l dk)"

fun set_raised :: "set_call \<Rightarrow> RemoteSet \<times> fs \<Rightarrow> exn option" where
  "set_raised (SetAdd item) (s, dk) = raised (RemoteSet_add item s dk)"
| "set_raised (SetRemove item) (s, dk) = raised (RemoteSet_remove item s dk)"
| "set_raised (SetPop slot) (s, dk) = raised (RemoteSet_pop slot s dk)"

text \<open>
  The states of a \<^verbatim>\<open>RemoteSet\<close> that the program can reach: what the constructor
  builds, and what a call leaves of a state that can be reached.
\<close>

inductive rset_reachable :: "RemoteSet \<Rightarrow> bool" where
  built: "RemoteSet_init identifier dk = Some s \<Longrightarrow> rset_reachable s"
| called: "rset_reachable s \<Longrightarrow> set_step c (s, dk) = (s', dk') \<Longrightarrow> rset_reachable s'"

text \<open>
  The replies \<^verbatim>\<open>hacer_evento\<close> gives for the descriptors of a batch, in order, each
  with its descriptor, up to the end of the batch or the first exception.
\<close>

fun replies :: "python \<Rightarrow> event list \<Rightarrow> server \<Rightarrow> (event \<times> reply) list" where
  "replies py [] w = []"
| "replies py (op # ops) w =
     (case hacer_evento py w op of
        Some (Inr r, w') \<Rightarrow> (op, r) # replies py ops w'
      | _ \<Rightarrow> [])"

section \<open>Properties\<close>

subsection \<open>Failed look-ups change nothing\<close>

lemma RemoteDict_remove_absent:
  "map_of (rdict_storage d) key = None \<Longrightarrow>
   RemoteDict_remove key d dk = (Inl (RtKeyError key), d, dk)"
  by (simp add: RemoteDict_remove_def)

lemma RemoteDict_pop_absent:
  "map_of (rdict_storage d) key = None \<Longrightarrow>
   RemoteDict_pop key d dk = (Inl (RtKeyError key), d, dk)"
  by (simp add: RemoteDict_pop_def)

lemma RemoteList_remove_absent:
  "item \<notin> set (rlist_storage l) \<Longrightarrow>
   RemoteList_remove item l dk = (Inl (RtKeyError (''Item '' @ item @ '' not found in list'')), l, dk)"
  by (simp add: RemoteList_remove_def)

lemma RemoteList_pop_invalid:
  "fits_ssize_t i \<Longrightarrow> py_index i (length (rlist_storage l)) = None \<Longrightarrow>
   RemoteList_pop (Some i) l dk = (Inl (RtIndexError (index_message (Some i))), l, dk)"
  by (simp add: RemoteList_pop_def)

lemma RemoteList_pop_overflow:
  "\<not> fits_ssize_t i \<Longrightarrow> RemoteList_pop (Some i) l dk = (Inl PyOverflowError, l, dk)"
  by (simp add: RemoteList_pop_def)

lemma RemoteList_pop_empty:
  "rlist_storage l = [] \<Longrightarrow>
   RemoteList_pop None l dk = (Inl (RtIndexError (index_message None)), l, dk)"
  by (simp add: RemoteList_pop_def py_index_def)

lemma RemoteList_getItem_invalid:
  "py_index i (length (rlist_storage l)) = None \<Longrightarrow>
   RemoteList_getItem i l = Inl (RtIndexError (index_message (Some i)))"
  by (simp add: RemoteList_getItem_def)

lemma RemoteSet_remove_absent:
  "item \<notin> set (rset_data s) \<Longrightarrow>
   RemoteSet_remove item s dk = (Inl (RtKeyError (not_in_set_message item)), s, dk)"
  by (simp add: RemoteSet_remove_def)

lemma RemoteSet_pop_empty:
  "rset_data s = [] \<Longrightarrow> RemoteSet_pop slot s dk = (Inl (RtKeyError empty_set_message), s, dk)"
  by (simp add: RemoteSet_pop_def)

text \<open>
  C9. A mutating operation that fails with a not-found error leaves the instance, with
  its contents and its modification counter, and the file system as they were before
  the call. The first part of the theorem is the claim, for every call that fails with
  \<^verbatim>\<open>rt.KeyError\<close> or \<^verbatim>\<open>rt.IndexError\<close>; the second part goes through the
  situations the claim lists and shows that each fails so. An index is invalid when it
  is outside \<open>-n \<le> i < n\<close>; \<^verbatim>\<open>pop\<close> answers it with \<^verbatim>\<open>rt.IndexError\<close> when it
  fits a \<^verbatim>\<open>Py_ssize_t\<close>. For an index that does not fit, \<^verbatim>\<open>pop\<close> lets the
  built-in \<^verbatim>\<open>OverflowError\<close> through, which is no not-found error, and changes
  nothing either. \<^verbatim>\<open>getItem\<close> assigns nothing in either class, so the model gives
  it no state to return.
\<close>

theorem not_found_failure_changes_nothing:
  "(RemoteDict_remove key d dk = (Inl e, d', dk') \<and> not_found_class e \<longrightarrow> d' = d \<and> dk' = dk) \<and>
   (RemoteDict_pop key d dk = (Inl e, d', dk') \<and> not_found_class e \<longrightarrow> d' = d \<and> dk' = dk) \<and>
   (RemoteList_remove item l dk = (Inl e, l', dk') \<and> not_found_class e \<longrightarrow> l' = l \<and> dk' = dk) \<and>
   (RemoteList_pop index l dk = (Inl e, l', dk') \<and> not_found_class e \<longrightarrow> l' = l \<and> dk' = dk) \<and>
   (RemoteSet_remove item s dk = (Inl e, s', dk') \<and> not_found_class e \<longrightarrow> s' = s \<and> dk' = dk) \<and>
   (RemoteSet_pop slot s dk = (Inl e, s', dk') \<and> not_found_class e \<longrightarrow> s' = s \<and> dk' = dk) \<and>
   (map_of (rdict_storage d) key = None \<longrightarrow>
      RemoteDict_remove key d dk = (Inl (RtKeyError key), d, dk) \<and>
      RemoteDict_pop key d dk = (Inl (RtKeyError key), d, dk)) \<and>
   (item \<notin> set (rlist_storage l) \<longrightarrow>
      RemoteList_remove item l dk =
        (Inl (RtKeyError (''Item '' @ item @ '' not found in list'')), l, dk)) \<and>
   (py_index i (length (rlist_storage l)) = None \<longrightarrow>
      (fits_ssize_t i \<longrightarrow>
         RemoteList_pop (Some i) l dk = (Inl (RtIndexError (index_message (Some i))), l, dk)) \<and>
      RemoteList_getItem i l = Inl (RtIndexError (index_message (Some i)))) \<and>
   (\<not> fits_ssize_t i \<longrightarrow>
      RemoteList_pop (Some i) l dk = (Inl PyOverflowError, l, dk) \<and>
      \<not> not_found_class PyOverflowError) \<and>
   (rlist_storage l = [] \<longrightarrow>
      RemoteList_pop None l dk = (Inl (RtIndexError (index_message None)), l, dk)) \<and>
   (item \<notin> set (rset_data s) \<longrightarrow>
      RemoteSet_remove item s dk = (Inl (RtKeyError (not_in_set_message item)), s, dk)) \<and>
   (rset_data s = [] \<longrightarrow>
      RemoteSet_pop slot s dk = (Inl (RtKeyError empty_set_message), s, dk))"
proof (intro conjI impI; (elim conjE)?)
  assume "RemoteDict_remove key d dk = (Inl e, d', dk')" "not_found_class e"
  then show "d' = d" "dk' = dk"
    by (auto simp: RemoteDict_remove_def RemoteDict_save_data_def not_found_class_def Let_def
        split: option.splits sum.splits)
next
  assume "RemoteDict_pop key d dk = (Inl e, d', dk')" "not_found_class e"
  then show "d' = d" "dk' = dk"
    by (auto simp: RemoteDict_pop_def RemoteDict_save_data_def not_found_class_def Let_def
        split: option.splits sum.splits)
next
  assume "RemoteList_remove item l dk = (Inl e, l', dk')" "not_found_class e"
  then show "l' = l" "dk' = dk"
    by (auto simp: RemoteList_remove_def RemoteList_save_data_def not_found_class_def Let_def
        split: option.splits sum.splits if_splits)
next
  assume "RemoteList_pop index l dk = (Inl e, l', dk')" "not_found_class e"
  then show "l' = l" "dk' = dk"
    by (auto simp: RemoteList_pop_def RemoteList_save_data_def not_found_class_def Let_def
        split: option.splits sum.splits if_splits)
next
  assume "RemoteSet_remove item s dk = (Inl e, s', dk')" "not_found_class e"
  then show "s' = s" "dk' = dk"
    by (auto simp: RemoteSet_remove_def RemoteSet_save_global_storage_def not_found_class_def
        Let_def split: option.splits sum.splits if_splits)
next
  assume "RemoteSet_pop slot s dk = (Inl e, s', dk')" "not_found_class e"
  then show "s' = s" "dk' = dk"
    by (auto simp: RemoteSet_pop_def RemoteSet_save_global_storage_def not_found_class_def
        Let_def split: option.splits sum.splits if_splits)
next
  assume absent: "map_of (rdict_storage d) key = None"
  then show "RemoteDict_remove key d dk = (Inl (RtKeyError key), d, dk)"
    by (rule RemoteDict_remove_absent)
  from absent show "RemoteDict_pop key d dk = (Inl (RtKeyError key), d, dk)"
    by (rule RemoteDict_pop_absent)
next
  assume "item \<notin> set (rlist_storage l)"
  then show "RemoteList_remove item l dk =
      (Inl (RtKeyError (''Item '' @ item @ '' not found in list'')), l, dk)"
    by (rule RemoteList_remove_absent)
next
  assume invalid: "py_index i (length (rlist_storage l)) = None"
  then show "RemoteList_getItem i l = Inl (RtIndexError (index_message (Some i)))"
    by (rule RemoteList_getItem_invalid)
  assume "fits_ssize_t i"
  from this invalid
  show "RemoteList_pop (Some i) l dk = (Inl (RtIndexError (index_message (Some i))), l, dk)"
    by (rule RemoteList_pop_invalid)
next
  assume "\<not> fits_ssize_t i"
  then show "RemoteList_pop (Some i) l dk = (Inl PyOverflowError, l, dk)"
    by (rule RemoteList_pop_overflow)
next
  show "\<not> not_found_class PyOverflowError"
    by (simp add: not_found_class_def)
next
  assume "rlist_storage l = []"
  then show "RemoteList_pop None l dk = (Inl (RtIndexError (index_message None)), l, dk)"
    by (rule RemoteList_pop_empty)
next
  assume "item \<notin> set (rset_data s)"
  then show "RemoteSet_remove item s dk = (Inl (RtKeyError (not_in_set_message item)), s, dk)"
    by (rule RemoteSet_remove_absent)
next
  assume "rset_data s = []"
  then show "RemoteSet_pop slot s dk = (Inl (RtKeyError empty_set_message), s, dk)"
    by (rule RemoteSet_pop_empty)
qed

text \<open>
  The theorem at the dictionary \<open>{a: 1}\<close> asked for the key \<open>b\<close>, at the list
  \<open>[a]\<close> asked for the item \<open>b\<close> and for the indices 1, -2 and \<open>2\<^sup>6\<^sup>3\<close>, at the
  empty list, at the set \<open>{a}\<close> asked for \<open>b\<close>, and at the empty set: each call
  fails, and returns the instance and the file system it was given.
\<close>

theorem not_found_failure_changes_nothing_witness:
  "RemoteDict_remove ''b''
     \<lparr>rdict_id = ''d'', rdict_storage_file = ''f'', rdict_storage = [(''a'', ''1'')],
      rdict_modification_count = 1\<rparr> empty_disk
   = (Inl (RtKeyError ''b''),
      \<lparr>rdict_id = ''d'', rdict_storage_file = ''f'', rdict_storage = [(''a'', ''1'')],
       rdict_modification_count = 1\<rparr>, empty_disk) \<and>
   RemoteDict_pop ''b''
     \<lparr>rdict_id = ''d'', rdict_storage_file = ''f'', rdict_storage = [(''a'', ''1'')],
      rdict_modification_count = 1\<rparr> empty_disk
   = (Inl (RtKeyError ''b''),
      \<lparr>rdict_id = ''d'', rdict_storage_file = ''f'', rdict_storage = [(''a'', ''1'')],
       rdict_modification_count = 1\<rparr>, empty_disk) \<and>
   RemoteList_remove ''b''
     \<lparr>rlist_id = ''l'', rlist_storage_file = ''g'', rlist_modification_count = 1,
      rlist_storage = [''a'']\<rparr> empty_disk
   = (Inl (RtKeyError ''Item b not found in list''),
      \<lparr>rlist_id = ''l'', rlist_storage_file = ''g'', rlist_modification_count = 1,
       rlist_storage = [''a'']\<rparr>, empty_disk) \<and>
   RemoteList_pop (Some 1)
     \<lparr>rlist_id = ''l'', rlist_storage_file = ''g'', rlist_modification_count = 1,
      rlist_storage = [''a'']\<rparr> empty_disk
   = (Inl (RtIndexError ''Index 1 is out of range''),
      \<lparr>rlist_id = ''l'', rlist_storage_file = ''g'', rlist_modification_count = 1,
       rlist_storage = [''a'']\<rparr>, empty_disk) \<and>
   RemoteList_getItem (- 2)
     \<lparr>rlist_id = ''l'', rlist_storage_file = ''g'', rlist_modification_count = 1,
      rlist_storage = [''a'']\<rparr>
   = Inl (RtIndexError ''Index -2 is out of range'') \<and>
   RemoteList_pop None
     \<lparr>rlist_id = ''l'', rlist_storage_file = ''g'', rlist_modification_count = 0,
      rlist_storage = []\<rparr> empty_disk
   = (Inl (RtIndexError ''Index None is out of range''),
      \<lparr>rlist_id = ''l'', rlist_storage_file = ''g'', rlist_modification_count = 0,
       rlist_storage = []\<rparr>, empty_disk) \<and>
   RemoteSet_remove ''b''
     \<lparr>rset_identifier = ''s'', rset_data = [''a''], rset_modification_count = 1,
      rset_storage_file = GLOBAL_STORAGE_FILE\<rparr> empty_disk
   = (Inl (RtKeyError (not_in_set_message ''b'')),
      \<lparr>rset_identifier = ''s'', rset_data = [''a''], rset_modification_count = 1,
       rset_storage_file = GLOBAL_STORAGE_FILE\<rparr>, empty_disk) \<and>
   RemoteSet_pop 0
     \<lparr>rset_identifier = ''s'', rset_data = [], rset_modification_count = 0,
      rset_storage_file = GLOBAL_STORAGE_FILE\<rparr> empty_disk
   = (Inl (RtKeyError empty_set_message),
      \<lparr>rset_identifier = ''s'', rset_data = [], rset_modification_count = 0,
       rset_storage_file = GLOBAL_STORAGE_FILE\<rparr>, empty_disk) \<and>
   RemoteList_pop (Some 9223372036854775808)
     \<lparr>rlist_id = ''l'', rlist_storage_file = ''g'', rlist_modification_count = 1,
      rlist_storage = [''a'']\<rparr> empty_disk
   = (Inl PyOverflowError,
      \<lparr>rlist_id = ''l'', rlist_storage_file = ''g'', rlist_modification_count = 1,
       rlist_storage = [''a'']\<rparr>, empty_disk) \<and>
   not_found_class (RtKeyError ''b'') \<and>
   not_found_class (RtIndexError ''Index 1 is out of range'')"
proof -
  let ?d = "\<lparr>rdict_id = ''d'', rdict_storage_file = ''f'', rdict_storage = [(''a'', ''1'')],
             rdict_modification_count = 1\<rparr>"
  let ?l = "\<lparr>rlist_id = ''l'', rlist_storage_file = ''g'', rlist_modification_count = 1,
             rlist_storage = [''a'']\<rparr>"
  let ?nil = "\<lparr>rlist_id = ''l'', rlist_storage_file = ''g'', rlist_modification_count = 0,
               rlist_storage = []\<rparr>"
  let ?a = "\<lparr>rset_identifier = ''s'', rset_data = [''a''], rset_modification_count = 1,
             rset_storage_file = GLOBAL_STORAGE_FILE\<rparr>"
  let ?none = "\<lparr>rset_identifier = ''s'', rset_data = [], rset_modification_count = 0,
                rset_storage_file = GLOBAL_STORAGE_FILE\<rparr>"
  have key: "map_of (rdict_storage ?d) ''b'' = None"
    and item: "''b'' \<notin> set (rlist_storage ?l)"
    and i1: "py_index 1 (length (rlist_storage ?l)) = None"
    and i2: "py_index (- 2) (length (rlist_storage ?l)) = None"
    and fits: "fits_ssize_t 1"
    and big: "\<not> fits_ssize_t 9223372036854775808"
    and nil: "rlist_storage ?nil = []"
    and elem: "''b'' \<notin> set (rset_data ?a)"
    and none: "rset_data ?none = []"
    by (simp_all add: py_index_def fits_ssize_t_def)
  note at_dict =
    not_found_failure_changes_nothing [where d = ?d and key = "''b''" and dk = empty_disk]
  note at_list =
    not_found_failure_changes_nothing
      [where l = ?l and item = "''b''" and i = 1 and dk = empty_disk]
  note at_index =
    not_found_failure_changes_nothing [where l = ?l and i = "- 2"]
  note at_nil =
    not_found_failure_changes_nothing [where l = ?nil and dk = empty_disk]
  note at_set =
    not_found_failure_changes_nothing [where s = ?a and item = "''b''" and dk = empty_disk]
  note at_none =
    not_found_failure_changes_nothing [where s = ?none and slot = 0 and dk = empty_disk]
  from at_dict key
  have c1: "RemoteDict_remove ''b'' ?d empty_disk = (Inl (RtKeyError ''b''), ?d, empty_disk)"
    and c2: "RemoteDict_pop ''b'' ?d empty_disk = (Inl (RtKeyError ''b''), ?d, empty_disk)"
    by simp_all
  from at_list item i1 fits
  have c3: "RemoteList_remove ''b'' ?l empty_disk =
      (Inl (RtKeyError (''Item '' @ ''b'' @ '' not found in list'')), ?l, empty_disk)"
    and c4: "RemoteList_pop (Some 1) ?l empty_disk =
      (Inl (RtIndexError (index_message (Some 1))), ?l, empty_disk)"
    by simp_all
  from at_index i2
  have c5: "RemoteList_getItem (- 2) ?l = Inl (RtIndexError (index_message (Some (- 2))))"
    by simp
  from not_found_failure_changes_nothing
         [where l = ?l and i = 9223372036854775808 and dk = empty_disk] big
  have c9: "RemoteList_pop (Some 9223372036854775808) ?l empty_disk =
      (Inl PyOverflowError, ?l, empty_disk)"
    by simp
  from at_nil nil
  have c6: "RemoteList_pop None ?nil empty_disk =
      (Inl (RtIndexError (index_message None)), ?nil, empty_disk)"
    by simp
  from at_set elem
  have c7: "RemoteSet_remove ''b'' ?a empty_disk =
      (Inl (RtKeyError (not_in_set_message ''b'')), ?a, empty_disk)"
    by simp
  from at_none none
  have c8: "RemoteSet_pop 0 ?none empty_disk =
      (Inl (RtKeyError empty_set_message), ?none, empty_disk)"
    by simp
  have m1: "index_message (Some 1) = ''Index 1 is out of range''"
    and m2: "index_message (Some (- 2)) = ''Index -2 is out of range''"
    and m3: "index_message None = ''Index None is out of range''"
    by (simp_all add: index_message_def py_str_int_def digits10.simps)
  have nf: "not_found_class (RtKeyError ''b'')"
    "not_found_class (RtIndexError ''Index 1 is out of range'')"
    by (simp_all add: not_found_class_def)
  from c1 c2 c3 c4 c5 c6 c7 c8 c9 nf show ?thesis
    by (simp add: m1 m2 m3)
qed

subsection \<open>The default identifier\<close>

lemma Factory_get_again:
  "Factory_get t ident w = Some (p, w') \<Longrightarrow> Factory_get t ident w' = Some (p, w')"
  by (cases t)
     (auto simp: Factory_get_rdict_def Factory_get_rlist_def Factory_get_rset_def
        split: if_splits option.splits)

text \<open>
  C10. \<^verbatim>\<open>Factory.get\<close> with the empty string as identifier does what it does with
  the identifier left out: it takes the default identifier of the type,
  \<open>default_rdict\<close>, \<open>default_rlist\<close> or \<open>default_rset\<close>. So after an access without
  identifier, an access with the empty string returns the proxy that access returned,
  and leaves the server as it is.
\<close>

theorem empty_identifier_is_default:
  "Factory_get t (Some '''') w = Factory_get t None w \<and>
   Factory_get RDict (Some '''') w = Factory_get_rdict ''default_rdict'' w \<and>
   Factory_get RList (Some '''') w = Factory_get_rlist ''default_rlist'' w \<and>
   Factory_get RSet (Some '''') w = Factory_get_rset ''default_rset'' w \<and>
   (Factory_get t None w = Some (p, w') \<longrightarrow> Factory_get t (Some '''') w' = Some (p, w'))"
proof (intro conjI impI)
  show same: "Factory_get t (Some '''') w = Factory_get t None w" for w
    by (cases t) (simp_all add: py_or_def)
  show "Factory_get RDict (Some '''') w = Factory_get_rdict ''default_rdict'' w"
    by (simp add: py_or_def)
  show "Factory_get RList (Some '''') w = Factory_get_rlist ''default_rlist'' w"
    by (simp add: py_or_def)
  show "Factory_get RSet (Some '''') w = Factory_get_rset ''default_rset'' w"
    by (simp add: py_or_def)
  assume "Factory_get t None w = Some (p, w')"
  then have "Factory_get t None w' = Some (p, w')"
    by (rule Factory_get_again)
  with same [of w'] show "Factory_get t (Some '''') w' = Some (p, w')"
    by simp
qed

text \<open>
  The theorem at a new factory on an empty file system: the first access, without
  identifier, builds the set \<open>default_rset\<close>; the access with the empty string
  returns the same proxy and changes nothing.
\<close>

theorem empty_identifier_is_default_witness:
  "\<exists>w'. Factory_get RSet None (Factory_init empty_disk) = Some (RSetPrx ''default_rset'', w') \<and>
        rsets w' ''default_rset'' \<noteq> None \<and>
        Factory_get RSet (Some '''') w' = Some (RSetPrx ''default_rset'', w')"
proof -
  obtain w' where
    first: "Factory_get RSet None (Factory_init empty_disk) = Some (RSetPrx ''default_rset'', w')"
    and cached: "rsets w' ''default_rset'' \<noteq> None"
    by (simp add: Factory_get_rset_def py_or_def Factory_init_def RemoteSet_init_def
        RemoteSet_load_data_def empty_disk_def)
  from empty_identifier_is_default
         [of RSet "Factory_init empty_disk" "RSetPrx ''default_rset''" w'] first
  have "Factory_get RSet (Some '''') w' = Some (RSetPrx ''default_rset'', w')"
    by blast
  with first cached show ?thesis
    by blast
qed

subsection \<open>Decoding what was encoded\<close>

lemma as_str_dict_of: "as_str_dict (map (\<lambda>(k, v). (k, JStr v)) kvs) = Some kvs"
  by (induction kvs) auto

lemma as_str_list_of: "as_str_list (map JStr xs) = Some xs"
  by (induction xs) auto

lemma as_list_of: "as_list (of_str_list xs) = Some xs"
  by (simp add: of_str_list_def as_str_list_of)

subsection \<open>Reachable sets\<close>

lemma rset_reachable_inv:
  "rset_reachable s \<Longrightarrow> distinct (rset_data s) \<and> rset_storage_file s = GLOBAL_STORAGE_FILE"
proof (induction rule: rset_reachable.induct)
  case (built ident dk s)
  then show ?case
    by (auto simp: RemoteSet_init_def RemoteSet_load_data_def
        split: option.splits file_content.splits json.splits)
next
  case (called s c dk s' dk')
  then show ?case
    by (cases c)
       (auto simp: RemoteSet_add_def RemoteSet_remove_def RemoteSet_pop_def Let_def
          distinct_removeAll split: if_splits sum.splits)
qed

subsection \<open>Persisting and loading again\<close>

lemma RemoteDict_round_trip:
  "RemoteDict_save_data d dk = Inr dk' \<Longrightarrow>
   RemoteDict_init (rdict_id d) (rdict_storage_file d) dk' =
     Some (d\<lparr>rdict_modification_count := 0\<rparr>)"
  by (auto simp: RemoteDict_save_data_def RemoteDict_init_def RemoteDict_load_data_def
      fs_write_def of_str_dict_def as_str_dict_of split: option.splits if_splits)

lemma RemoteList_round_trip:
  "RemoteList_save_data l dk = Inr dk' \<Longrightarrow>
   RemoteList_init (rlist_id l) (rlist_storage_file l) dk' =
     Some (l\<lparr>rlist_modification_count := 0\<rparr>)"
  by (auto simp: RemoteList_save_data_def RemoteList_init_def RemoteList_load_data_def
      fs_write_def as_list_of update_conv'
      split: option.splits if_splits file_content.splits json.splits)

lemma RemoteSet_round_trip:
  "RemoteSet_save_global_storage s dk = Inr dk' \<Longrightarrow> distinct (rset_data s) \<Longrightarrow>
   rset_storage_file s = GLOBAL_STORAGE_FILE \<Longrightarrow>
   RemoteSet_init (rset_identifier s) dk' = Some (s\<lparr>rset_modification_count := 0\<rparr>)"
  by (auto simp: RemoteSet_save_global_storage_def RemoteSet_init_def RemoteSet_load_data_def
      fs_write_def as_list_of update_conv'
      split: option.splits if_splits file_content.splits json.splits)

text \<open>
  C7. Once an instance has saved its state, a new instance built with the same
  identifier on the same file has the same contents and the same length. For a
  dictionary and a list this holds of every state; for a set, of every state the
  program can reach (its constructor takes no file: every set uses the shared one).
\<close>

theorem persist_reload_round_trip:
  "(RemoteDict_save_data d dk = Inr dk' \<longrightarrow>
      (\<exists>d2. RemoteDict_init (rdict_id d) (rdict_storage_file d) dk' = Some d2 \<and>
            rdict_storage d2 = rdict_storage d \<and>
            RemoteDict_length d2 = RemoteDict_length d)) \<and>
   (RemoteList_save_data l lk = Inr lk' \<longrightarrow>
      (\<exists>l2. RemoteList_init (rlist_id l) (rlist_storage_file l) lk' = Some l2 \<and>
            rlist_storage l2 = rlist_storage l \<and>
            RemoteList_length l2 = RemoteList_length l)) \<and>
   (rset_reachable s \<and> RemoteSet_save_global_storage s sk = Inr sk' \<longrightarrow>
      (\<exists>s2. RemoteSet_init (rset_identifier s) sk' = Some s2 \<and>
            set (rset_data s2) = set (rset_data s) \<and>
            RemoteSet_length s2 = RemoteSet_length s))"
proof (intro conjI impI)
  assume "RemoteDict_save_data d dk = Inr dk'"
  from RemoteDict_round_trip [OF this]
  show "\<exists>d2. RemoteDict_init (rdict_id d) (rdict_storage_file d) dk' = Some d2 \<and>
             rdict_storage d2 = rdict_storage d \<and> RemoteDict_length d2 = RemoteDict_length d"
    by (simp add: RemoteDict_length_def)
next
  assume "RemoteList_save_data l lk = Inr lk'"
  from RemoteList_round_trip [OF this]
  show "\<exists>l2. RemoteList_init (rlist_id l) (rlist_storage_file l) lk' = Some l2 \<and>
             rlist_storage l2 = rlist_storage l \<and> RemoteList_length l2 = RemoteList_length l"
    by (simp add: RemoteList_length_def)
next
  assume a: "rset_reachable s \<and> RemoteSet_save_global_storage s sk = Inr sk'"
  then have inv: "distinct (rset_data s)" "rset_storage_file s = GLOBAL_STORAGE_FILE"
    using rset_reachable_inv by blast+
  from a have saved: "RemoteSet_save_global_storage s sk = Inr sk'" by simp
  from RemoteSet_round_trip [OF saved inv]
  show "\<exists>s2. RemoteSet_init (rset_identifier s) sk' = Some s2 \<and>
             set (rset_data s2) = set (rset_data s) \<and> RemoteSet_length s2 = RemoteSet_length s"
    by (simp add: RemoteSet_length_def)
qed

text \<open>
  The three round trips at \<open>{a: 1}\<close>, \<open>[a, a]\<close> and the set \<open>{a}\<close> reached by
  \<^verbatim>\<open>add("a")\<close> on a fresh set, each saved to an empty file system.
\<close>

theorem persist_reload_round_trip_witness:
  "(\<exists>dk' d2.
      RemoteDict_save_data
        \<lparr>rdict_id = ''d'', rdict_storage_file = ''f'', rdict_storage = [(''a'', ''1'')],
         rdict_modification_count = 1\<rparr> empty_disk = Inr dk' \<and>
      RemoteDict_init ''d'' ''f'' dk' = Some d2 \<and> rdict_storage d2 = [(''a'', ''1'')] \<and>
      RemoteDict_length d2 = 1) \<and>
   (\<exists>dk' l2.
      RemoteList_save_data
        \<lparr>rlist_id = ''l'', rlist_storage_file = ''g'', rlist_modification_count = 2,
         rlist_storage = [''a'', ''a'']\<rparr> empty_disk = Inr dk' \<and>
      RemoteList_init ''l'' ''g'' dk' = Some l2 \<and> rlist_storage l2 = [''a'', ''a''] \<and>
      RemoteList_length l2 = 2) \<and>
   (\<exists>dk' s2.
      rset_reachable
        \<lparr>rset_identifier = ''s'', rset_data = [''a''], rset_modification_count = 1,
         rset_storage_file = GLOBAL_STORAGE_FILE\<rparr> \<and>
      RemoteSet_save_global_storage
        \<lparr>rset_identifier = ''s'', rset_data = [''a''], rset_modification_count = 1,
         rset_storage_file = GLOBAL_STORAGE_FILE\<rparr> empty_disk = Inr dk' \<and>
      RemoteSet_init ''s'' dk' = Some s2 \<and> set (rset_data s2) = {''a''} \<and>
      RemoteSet_length s2 = 1)"
proof -
  let ?d = "\<lparr>rdict_id = ''d'', rdict_storage_file = ''f'', rdict_storage = [(''a'', ''1'')],
             rdict_modification_count = 1\<rparr>"
  let ?l = "\<lparr>rlist_id = ''l'', rlist_storage_file = ''g'', rlist_modification_count = 2,
             rlist_storage = [''a'', ''a'']\<rparr>"
  let ?fresh = "\<lparr>rset_identifier = ''s'', rset_data = [], rset_modification_count = 0,
              rset_storage_file = GLOBAL_STORAGE_FILE\<rparr>"
  let ?s = "\<lparr>rset_identifier = ''s'', rset_data = [''a''], rset_modification_count = 1,
             rset_storage_file = GLOBAL_STORAGE_FILE\<rparr>"
  obtain dk1 where d: "RemoteDict_save_data ?d empty_disk = Inr dk1"
    by (simp add: RemoteDict_save_data_def fs_write_def empty_disk_def)
  obtain dk2 where l: "RemoteList_save_data ?l empty_disk = Inr dk2"
    by (simp add: RemoteList_save_data_def fs_write_def empty_disk_def)
  obtain dk3 where s: "RemoteSet_save_global_storage ?s empty_disk = Inr dk3"
    by (simp add: RemoteSet_save_global_storage_def fs_write_def empty_disk_def)
  have "RemoteSet_init ''s'' empty_disk = Some ?fresh"
    by (simp add: RemoteSet_init_def RemoteSet_load_data_def empty_disk_def)
  then have r0: "rset_reachable ?fresh"
    by (rule rset_reachable.built)
  have "set_step (SetAdd ''a'') (?fresh, empty_disk) = (?s, dk3)"
    using s by (simp add: RemoteSet_add_def)
  with r0 have r: "rset_reachable ?s"
    by (rule rset_reachable.called)
  from persist_reload_round_trip [of ?d empty_disk dk1 ?l empty_disk dk2 ?s empty_disk dk3] d l s r
  show ?thesis
    by (simp add: RemoteDict_length_def RemoteList_length_def RemoteSet_length_def)
qed

subsection \<open>A call that returns has saved the state it leaves\<close>

lemma RemoteDict_mutation_saves:
  "RemoteDict_setItem key item d dk = (Inr u, d', dk') \<Longrightarrow> RemoteDict_save_data d' dk = Inr dk'"
  "RemoteDict_remove key d dk = (Inr u, d', dk') \<Longrightarrow> RemoteDict_save_data d' dk = Inr dk'"
  "RemoteDict_pop key d dk = (Inr v, d', dk') \<Longrightarrow> RemoteDict_save_data d' dk = Inr dk'"
  by (auto simp: RemoteDict_setItem_def RemoteDict_remove_def RemoteDict_pop_def Let_def
      split: option.splits sum.splits)

lemma RemoteList_mutation_saves:
  "RemoteList_append item l dk = (Inr u, l', dk') \<Longrightarrow> RemoteList_save_data l' dk = Inr dk'"
  "RemoteList_remove item l dk = (Inr u, l', dk') \<Longrightarrow> RemoteList_save_data l' dk = Inr dk'"
  "RemoteList_pop index l dk = (Inr v, l', dk') \<Longrightarrow> RemoteList_save_data l' dk = Inr dk'"
  by (auto simp: RemoteList_append_def RemoteList_remove_def RemoteList_pop_def Let_def
      split: option.splits sum.splits if_splits)

lemma RemoteSet_mutation_saves:
  "RemoteSet_add item s dk = (Inr u, s', dk') \<Longrightarrow> item \<notin> set (rset_data s) \<Longrightarrow>
   RemoteSet_save_global_storage s' dk = Inr dk'"
  "RemoteSet_remove item s dk = (Inr u, s', dk') \<Longrightarrow> RemoteSet_save_global_storage s' dk = Inr dk'"
  "RemoteSet_pop slot s dk = (Inr v, s', dk') \<Longrightarrow> RemoteSet_save_global_storage s' dk = Inr dk'"
  by (auto simp: RemoteSet_add_def RemoteSet_remove_def RemoteSet_pop_def Let_def
      split: option.splits sum.splits if_splits)

subsection \<open>\<^verbatim>\<open>RemoteSet.pop\<close>\<close>




subsection \<open>The first access to an identifier\<close>

lemma Factory_get_disk: "Factory_get t ident w = Some (p, w') \<Longrightarrow> disk w' = disk w"
  by (cases t)
     (auto simp: Factory_get_rdict_def Factory_get_rlist_def Factory_get_rset_def
        split: if_splits option.splits)

text \<open>
  C5, as the program has it. The first access to an identifier builds the instance
  from what the constructor loads: the persisted state, or the empty state when the file
  is missing or does not parse; the counter is 0, and the instance is cached under the
  identifier. No access writes: the file system after \<^verbatim>\<open>Factory.get\<close> is the one
  before it. (\<^verbatim>\<open>PersistentObject\<close>, whose constructor saves a record for a new
  identifier, is the base class of none of the three collections.)
\<close>

theorem first_access_loads_and_writes_nothing:
  "(Factory_get t ident w = Some (p, w') \<longrightarrow> disk w' = disk w) \<and>
   (rdicts w i = None \<and> Factory_get_rdict i w = Some (p, w') \<longrightarrow>
      p = RDictPrx i \<and>
      (\<exists>kvs. RemoteDict_load_data (rdict_path i) (disk w) = Some kvs \<and>
         rdicts w' i = Some \<lparr>rdict_id = i, rdict_storage_file = rdict_path i,
                               rdict_storage = kvs, rdict_modification_count = 0\<rparr>)) \<and>
   (rlists w i = None \<and> Factory_get_rlist i w = Some (p, w') \<longrightarrow>
      p = RListPrx i \<and>
      (\<exists>xs. RemoteList_load_data i (rlist_path i) (disk w) = Some xs \<and>
         rlists w' i = Some \<lparr>rlist_id = i, rlist_storage_file = rlist_path i,
                               rlist_modification_count = 0, rlist_storage = xs\<rparr>)) \<and>
   (rsets w i = None \<and> Factory_get_rset i w = Some (p, w') \<longrightarrow>
      p = RSetPrx i \<and>
      (\<exists>xs. RemoteSet_load_data i GLOBAL_STORAGE_FILE (disk w) = Some xs \<and>
         rsets w' i = Some \<lparr>rset_identifier = i, rset_data = xs,
                              rset_modification_count = 0,
                              rset_storage_file = GLOBAL_STORAGE_FILE\<rparr>)) \<and>
   (files dk f = None \<or> files dk f = Some Unparsable \<longrightarrow>
      RemoteDict_load_data f dk = Some [] \<and> RemoteList_load_data i f dk = Some [] \<and>
      RemoteSet_load_data i f dk = Some [])"
proof (intro conjI impI)
  assume "Factory_get t ident w = Some (p, w')"
  then show "disk w' = disk w"
    by (rule Factory_get_disk)
next
  assume a: "rdicts w i = None \<and> Factory_get_rdict i w = Some (p, w')"
  then show "p = RDictPrx i"
    by (auto simp: Factory_get_rdict_def split: option.splits)
  from a show "\<exists>kvs. RemoteDict_load_data (rdict_path i) (disk w) = Some kvs \<and>
         rdicts w' i = Some \<lparr>rdict_id = i, rdict_storage_file = rdict_path i,
                               rdict_storage = kvs, rdict_modification_count = 0\<rparr>"
    by (auto simp: Factory_get_rdict_def RemoteDict_init_def split: option.splits)
next
  assume a: "rlists w i = None \<and> Factory_get_rlist i w = Some (p, w')"
  then show "p = RListPrx i"
    by (auto simp: Factory_get_rlist_def split: option.splits)
  from a show "\<exists>xs. RemoteList_load_data i (rlist_path i) (disk w) = Some xs \<and>
         rlists w' i = Some \<lparr>rlist_id = i, rlist_storage_file = rlist_path i,
                               rlist_modification_count = 0, rlist_storage = xs\<rparr>"
    by (auto simp: Factory_get_rlist_def RemoteList_init_def split: option.splits)
next
  assume a: "rsets w i = None \<and> Factory_get_rset i w = Some (p, w')"
  then show "p = RSetPrx i"
    by (auto simp: Factory_get_rset_def split: option.splits)
  from a show "\<exists>xs. RemoteSet_load_data i GLOBAL_STORAGE_FILE (disk w) = Some xs \<and>
         rsets w' i = Some \<lparr>rset_identifier = i, rset_data = xs,
                              rset_modification_count = 0,
                              rset_storage_file = GLOBAL_STORAGE_FILE\<rparr>"
    by (auto simp: Factory_get_rset_def RemoteSet_init_def split: option.splits)
next
  assume a: "files dk f = None \<or> files dk f = Some Unparsable"
  then show "RemoteDict_load_data f dk = Some []"
    by (auto simp: RemoteDict_load_data_def)
  from a show "RemoteList_load_data i f dk = Some []"
    by (auto simp: RemoteList_load_data_def)
  from a show "RemoteSet_load_data i f dk = Some []"
    by (auto simp: RemoteSet_load_data_def)
qed

text \<open>
  The theorem at a new factory on an empty file system, asked for the dictionary \<open>x\<close>,
  the list \<open>y\<close> and the default set: each instance is empty and cached, and the
  file system is still empty. A file that does not parse loads as empty state.
\<close>

theorem first_access_loads_and_writes_nothing_witness:
  "(\<exists>w'. Factory_get RDict (Some ''x'') (Factory_init empty_disk) = Some (RDictPrx ''x'', w') \<and>
         disk w' = empty_disk \<and>
         rdicts w' ''x'' = Some \<lparr>rdict_id = ''x'', rdict_storage_file = rdict_path ''x'',
                                   rdict_storage = [], rdict_modification_count = 0\<rparr>) \<and>
   (\<exists>w'. Factory_get RList (Some ''y'') (Factory_init empty_disk) = Some (RListPrx ''y'', w') \<and>
         disk w' = empty_disk \<and>
         rlists w' ''y'' = Some \<lparr>rlist_id = ''y'', rlist_storage_file = rlist_path ''y'',
                                   rlist_modification_count = 0, rlist_storage = []\<rparr>) \<and>
   (\<exists>w'. Factory_get RSet None (Factory_init empty_disk) = Some (RSetPrx ''default_rset'', w') \<and>
         disk w' = empty_disk \<and>
         rsets w' ''default_rset'' =
           Some \<lparr>rset_identifier = ''default_rset'', rset_data = [],
                 rset_modification_count = 0, rset_storage_file = GLOBAL_STORAGE_FILE\<rparr>) \<and>
   RemoteDict_load_data ''f'' \<lparr>files = [''f'' \<mapsto> Unparsable], unwritable = {}\<rparr> = Some [] \<and>
   RemoteList_load_data ''l'' ''f'' \<lparr>files = [''f'' \<mapsto> Unparsable], unwritable = {}\<rparr> = Some [] \<and>
   RemoteSet_load_data ''s'' ''f'' \<lparr>files = [''f'' \<mapsto> Unparsable], unwritable = {}\<rparr> = Some []"
proof -
  let ?w = "Factory_init empty_disk"
  let ?bad = "\<lparr>files = [''f'' \<mapsto> Unparsable], unwritable = {}\<rparr>"
  note defs = Factory_get_rdict_def Factory_get_rlist_def Factory_get_rset_def py_or_def
    Factory_init_def RemoteDict_init_def RemoteDict_load_data_def RemoteList_init_def
    RemoteList_load_data_def RemoteSet_init_def RemoteSet_load_data_def empty_disk_def
  obtain p1 w1 where g1: "Factory_get RDict (Some ''x'') ?w = Some (p1, w1)"
    by (simp add: defs)
  obtain p2 w2 where g2: "Factory_get RList (Some ''y'') ?w = Some (p2, w2)"
    by (simp add: defs)
  obtain p3 w3 where g3: "Factory_get RSet None ?w = Some (p3, w3)"
    by (simp add: defs)
  from g1 have g1': "Factory_get_rdict ''x'' ?w = Some (p1, w1)"
    by (simp add: py_or_def)
  from g2 have g2': "Factory_get_rlist ''y'' ?w = Some (p2, w2)"
    by (simp add: py_or_def)
  from g3 have g3': "Factory_get_rset ''default_rset'' ?w = Some (p3, w3)"
    by (simp add: py_or_def)
  have miss: "rdicts ?w ''x'' = None" "rlists ?w ''y'' = None" "rsets ?w ''default_rset'' = None"
    by (simp_all add: Factory_init_def)
  have loads:
    "RemoteDict_load_data (rdict_path ''x'') (disk ?w) = Some []"
    "RemoteList_load_data ''y'' (rlist_path ''y'') (disk ?w) = Some []"
    "RemoteSet_load_data ''default_rset'' GLOBAL_STORAGE_FILE (disk ?w) = Some []"
    by (simp_all add: defs)
  have bad: "files ?bad ''f'' = None \<or> files ?bad ''f'' = Some Unparsable"
    by simp
  from first_access_loads_and_writes_nothing
         [where t = RDict and ident = "Some ''x''" and w = ?w and p = p1 and w' = w1
            and i = "''x''"]
       g1 g1' miss loads
  have a1: "disk w1 = disk ?w \<and> p1 = RDictPrx ''x'' \<and>
        rdicts w1 ''x'' = Some \<lparr>rdict_id = ''x'', rdict_storage_file = rdict_path ''x'',
                                  rdict_storage = [], rdict_modification_count = 0\<rparr>"
    by auto
  from first_access_loads_and_writes_nothing
         [where t = RList and ident = "Some ''y''" and w = ?w and p = p2 and w' = w2
            and i = "''y''"]
       g2 g2' miss loads
  have a2: "disk w2 = disk ?w \<and> p2 = RListPrx ''y'' \<and>
        rlists w2 ''y'' = Some \<lparr>rlist_id = ''y'', rlist_storage_file = rlist_path ''y'',
                                  rlist_modification_count = 0, rlist_storage = []\<rparr>"
    by auto
  from first_access_loads_and_writes_nothing
         [where t = RSet and ident = None and w = ?w and p = p3 and w' = w3
            and i = "''default_rset''"]
       g3 g3' miss loads
  have a3: "disk w3 = disk ?w \<and> p3 = RSetPrx ''default_rset'' \<and>
        rsets w3 ''default_rset'' =
          Some \<lparr>rset_identifier = ''default_rset'', rset_data = [],
                rset_modification_count = 0, rset_storage_file = GLOBAL_STORAGE_FILE\<rparr>"
    by auto
  from first_access_loads_and_writes_nothing
         [where dk = ?bad and f = "''f''" and i = "''l''"] bad
  have a4: "RemoteDict_load_data ''f'' ?bad = Some []"
    and a5: "RemoteList_load_data ''l'' ''f'' ?bad = Some []"
    by blast+
  from first_access_loads_and_writes_nothing
         [where dk = ?bad and f = "''f''" and i = "''s''"] bad
  have a6: "RemoteSet_load_data ''s'' ''f'' ?bad = Some []"
    by blast
  have d: "disk ?w = empty_disk"
    by (simp add: Factory_init_def)
  from g1 a1 have "\<exists>w'. Factory_get RDict (Some ''x'') ?w = Some (RDictPrx ''x'', w') \<and>
         disk w' = empty_disk \<and>
         rdicts w' ''x'' = Some \<lparr>rdict_id = ''x'', rdict_storage_file = rdict_path ''x'',
                                   rdict_storage = [], rdict_modification_count = 0\<rparr>"
    by (auto simp: d)
  moreover
  from g2 a2 have "\<exists>w'. Factory_get RList (Some ''y'') ?w = Some (RListPrx ''y'', w') \<and>
         disk w' = empty_disk \<and>
         rlists w' ''y'' = Some \<lparr>rlist_id = ''y'', rlist_storage_file = rlist_path ''y'',
                                   rlist_modification_count = 0, rlist_storage = []\<rparr>"
    by (auto simp: d)
  moreover
  from g3 a3 have "\<exists>w'. Factory_get RSet None ?w = Some (RSetPrx ''default_rset'', w') \<and>
         disk w' = empty_disk \<and>
         rsets w' ''default_rset'' =
           Some \<lparr>rset_identifier = ''default_rset'', rset_data = [],
                 rset_modification_count = 0, rset_storage_file = GLOBAL_STORAGE_FILE\<rparr>"
    by (auto simp: d)
  ultimately show ?thesis
    using a4 a5 a6 by blast
qed

text \<open>
  The claim as the spec has it says the first access persists the initial record. After
  the first access to each type on an empty file system, no file exists.
\<close>

theorem first_access_persists_counterexample:
  "(\<exists>w'. Factory_get RDict (Some ''x'') (Factory_init empty_disk) = Some (RDictPrx ''x'', w') \<and>
         files (disk w') (rdict_path ''x'') = None \<and> files (disk w') = Map.empty) \<and>
   (\<exists>w'. Factory_get RList (Some ''x'') (Factory_init empty_disk) = Some (RListPrx ''x'', w') \<and>
         files (disk w') (rlist_path ''x'') = None \<and> files (disk w') = Map.empty) \<and>
   (\<exists>w'. Factory_get RSet (Some ''x'') (Factory_init empty_disk) = Some (RSetPrx ''x'', w') \<and>
         files (disk w') GLOBAL_STORAGE_FILE = None \<and> files (disk w') = Map.empty)"
  by (simp add: Factory_get_rdict_def Factory_get_rlist_def Factory_get_rset_def py_or_def
      Factory_init_def RemoteDict_init_def RemoteDict_load_data_def RemoteList_init_def
      RemoteList_load_data_def RemoteSet_init_def RemoteSet_load_data_def empty_disk_def)

subsection \<open>What is written to the files\<close>

lemma rdict_path_inj: "rdict_path i = rdict_path j \<longleftrightarrow> i = j"
  by (simp add: rdict_path_def)

lemma rlist_path_inj: "rlist_path i = rlist_path j \<longleftrightarrow> i = j"
  by (simp add: rlist_path_def)

lemma rdict_path_not_rlist_path: "rdict_path i \<noteq> rlist_path j"
  by (simp add: rdict_path_def rlist_path_def STORAGE_PATH_def)

text \<open>
  C3, as the program has it. A dictionary writes its mapping itself, \<open>{key: value}\<close>,
  as the whole document of its file; a list and a set write their elements under their
  identifier, \<open>{identifier: [elements]}\<close>, into the object their file holds. The
  factory gives a dictionary and a list a file of their own, named after the type and
  the identifier; every set uses the one file \<open>remoteset_data.json\<close>, where a save
  keeps the entries of the other identifiers.
\<close>

theorem persisted_record_layout:
  "(RemoteDict_save_data d dk = Inr dk' \<longrightarrow>
      files dk' (rdict_storage_file d) = Some (Parsed (of_str_dict (rdict_storage d)))) \<and>
   (RemoteList_save_data l lk = Inr lk' \<longrightarrow>
      (\<exists>kvs. files lk' (rlist_storage_file l) = Some (Parsed (JObj kvs)) \<and>
             map_of kvs (rlist_id l) = Some (of_str_list (rlist_storage l)))) \<and>
   (RemoteSet_save_global_storage s sk = Inr sk' \<longrightarrow>
      (\<exists>kvs. files sk' (rset_storage_file s) = Some (Parsed (JObj kvs)) \<and>
             map_of kvs (rset_identifier s) = Some (of_str_list (rset_data s)))) \<and>
   (RemoteSet_save_global_storage s sk = Inr sk' \<and>
    files sk (rset_storage_file s) = Some (Parsed (JObj old)) \<and> j \<noteq> rset_identifier s \<longrightarrow>
      (\<exists>kvs. files sk' (rset_storage_file s) = Some (Parsed (JObj kvs)) \<and>
             map_of kvs j = map_of old j)) \<and>
   (RemoteSet_init i sk = Some s0 \<longrightarrow> rset_storage_file s0 = GLOBAL_STORAGE_FILE) \<and>
   (rdicts w i = None \<and> Factory_get_rdict i w = Some (p, w') \<longrightarrow>
      (\<exists>d0. rdicts w' i = Some d0 \<and> rdict_id d0 = i \<and> rdict_storage_file d0 = rdict_path i)) \<and>
   (rlists w i = None \<and> Factory_get_rlist i w = Some (p, w') \<longrightarrow>
      (\<exists>l0. rlists w' i = Some l0 \<and> rlist_id l0 = i \<and> rlist_storage_file l0 = rlist_path i)) \<and>
   (rdict_path i = rdict_path j \<longleftrightarrow> i = j) \<and>
   (rlist_path i = rlist_path j \<longleftrightarrow> i = j) \<and>
   rdict_path i \<noteq> rlist_path j"
proof (intro conjI impI)
  assume "RemoteDict_save_data d dk = Inr dk'"
  then show "files dk' (rdict_storage_file d) = Some (Parsed (of_str_dict (rdict_storage d)))"
    by (auto simp: RemoteDict_save_data_def fs_write_def split: option.splits if_splits)
next
  assume "RemoteList_save_data l lk = Inr lk'"
  then show "\<exists>kvs. files lk' (rlist_storage_file l) = Some (Parsed (JObj kvs)) \<and>
             map_of kvs (rlist_id l) = Some (of_str_list (rlist_storage l))"
    by (auto simp: RemoteList_save_data_def fs_write_def update_conv'
        split: option.splits if_splits)
next
  assume "RemoteSet_save_global_storage s sk = Inr sk'"
  then show "\<exists>kvs. files sk' (rset_storage_file s) = Some (Parsed (JObj kvs)) \<and>
             map_of kvs (rset_identifier s) = Some (of_str_list (rset_data s))"
    by (auto simp: RemoteSet_save_global_storage_def fs_write_def update_conv'
        split: option.splits if_splits)
next
  assume "RemoteSet_save_global_storage s sk = Inr sk' \<and>
    files sk (rset_storage_file s) = Some (Parsed (JObj old)) \<and> j \<noteq> rset_identifier s"
  then show "\<exists>kvs. files sk' (rset_storage_file s) = Some (Parsed (JObj kvs)) \<and>
             map_of kvs j = map_of old j"
    by (auto simp: RemoteSet_save_global_storage_def fs_write_def update_conv'
        split: option.splits if_splits)
next
  assume "RemoteSet_init i sk = Some s0"
  then show "rset_storage_file s0 = GLOBAL_STORAGE_FILE"
    by (auto simp: RemoteSet_init_def)
next
  assume "rdicts w i = None \<and> Factory_get_rdict i w = Some (p, w')"
  then show "\<exists>d0. rdicts w' i = Some d0 \<and> rdict_id d0 = i \<and> rdict_storage_file d0 = rdict_path i"
    by (auto simp: Factory_get_rdict_def RemoteDict_init_def split: option.splits)
next
  assume "rlists w i = None \<and> Factory_get_rlist i w = Some (p, w')"
  then show "\<exists>l0. rlists w' i = Some l0 \<and> rlist_id l0 = i \<and> rlist_storage_file l0 = rlist_path i"
    by (auto simp: Factory_get_rlist_def RemoteList_init_def split: option.splits)
next
  show "rdict_path i = rdict_path j \<longleftrightarrow> i = j"
    by (rule rdict_path_inj)
  show "rlist_path i = rlist_path j \<longleftrightarrow> i = j"
    by (rule rlist_path_inj)
  show "rdict_path i \<noteq> rlist_path j"
    by (rule rdict_path_not_rlist_path)
qed

text \<open>
  The theorem at the dictionary \<open>d = {a: 1}\<close> and the list \<open>l = [a]\<close>, each saved
  to its file on an empty file system, at the set \<open>t = {b}\<close> saved into the shared
  file that holds the set \<open>s = {a}\<close> (the file then holds both), and at the
  instances a new factory builds.
\<close>

theorem persisted_record_layout_witness:
  "(\<exists>dk'.
      RemoteDict_save_data
        \<lparr>rdict_id = ''d'', rdict_storage_file = rdict_path ''d'',
         rdict_storage = [(''a'', ''1'')], rdict_modification_count = 1\<rparr> empty_disk = Inr dk' \<and>
      files dk' (rdict_path ''d'') = Some (Parsed (JObj [(''a'', JStr ''1'')]))) \<and>
   (\<exists>lk' kvs.
      RemoteList_save_data
        \<lparr>rlist_id = ''l'', rlist_storage_file = rlist_path ''l'', rlist_modification_count = 1,
         rlist_storage = [''a'']\<rparr> empty_disk = Inr lk' \<and>
      files lk' (rlist_path ''l'') = Some (Parsed (JObj kvs)) \<and>
      map_of kvs ''l'' = Some (JArr [JStr ''a''])) \<and>
   (\<exists>sk'.
      RemoteSet_save_global_storage
        \<lparr>rset_identifier = ''t'', rset_data = [''b''], rset_modification_count = 1,
         rset_storage_file = GLOBAL_STORAGE_FILE\<rparr>
        \<lparr>files = [GLOBAL_STORAGE_FILE \<mapsto> Parsed (JObj [(''s'', JArr [JStr ''a''])])],
         unwritable = {}\<rparr> = Inr sk' \<and>
      (\<exists>kvs. files sk' GLOBAL_STORAGE_FILE = Some (Parsed (JObj kvs)) \<and>
             map_of kvs ''t'' = Some (JArr [JStr ''b'']) \<and>
             map_of kvs ''s'' = Some (JArr [JStr ''a'']))) \<and>
   (\<exists>p w' d0.
      Factory_get_rdict ''d'' (Factory_init empty_disk) = Some (p, w') \<and>
      rdicts w' ''d'' = Some d0 \<and> rdict_storage_file d0 = rdict_path ''d'') \<and>
   (\<exists>p w' l0.
      Factory_get_rlist ''l'' (Factory_init empty_disk) = Some (p, w') \<and>
      rlists w' ''l'' = Some l0 \<and> rlist_storage_file l0 = rlist_path ''l'') \<and>
   (\<exists>s0. RemoteSet_init ''t'' empty_disk = Some s0 \<and> rset_storage_file s0 = GLOBAL_STORAGE_FILE)"
proof -
  let ?d = "\<lparr>rdict_id = ''d'', rdict_storage_file = rdict_path ''d'',
             rdict_storage = [(''a'', ''1'')], rdict_modification_count = 1\<rparr>"
  let ?l = "\<lparr>rlist_id = ''l'', rlist_storage_file = rlist_path ''l'', rlist_modification_count = 1,
             rlist_storage = [''a'']\<rparr>"
  let ?t = "\<lparr>rset_identifier = ''t'', rset_data = [''b''], rset_modification_count = 1,
             rset_storage_file = GLOBAL_STORAGE_FILE\<rparr>"
  let ?old = "[(''s'', JArr [JStr ''a''])]"
  let ?sk = "\<lparr>files = [GLOBAL_STORAGE_FILE \<mapsto> Parsed (JObj ?old)], unwritable = {}\<rparr>"
  let ?w = "Factory_init empty_disk"
  obtain dk' where d: "RemoteDict_save_data ?d empty_disk = Inr dk'"
    by (simp add: RemoteDict_save_data_def fs_write_def empty_disk_def)
  obtain lk' where l: "RemoteList_save_data ?l empty_disk = Inr lk'"
    by (simp add: RemoteList_save_data_def fs_write_def empty_disk_def)
  obtain sk' where saved: "RemoteSet_save_global_storage ?t ?sk = Inr sk'"
    by (simp add: RemoteSet_save_global_storage_def fs_write_def)
  obtain p1 w1 where g1: "Factory_get_rdict ''d'' ?w = Some (p1, w1)"
    by (simp add: Factory_get_rdict_def Factory_init_def RemoteDict_init_def
        RemoteDict_load_data_def empty_disk_def)
  obtain p2 w2 where g2: "Factory_get_rlist ''l'' ?w = Some (p2, w2)"
    by (simp add: Factory_get_rlist_def Factory_init_def RemoteList_init_def
        RemoteList_load_data_def empty_disk_def)
  obtain s0 where i: "RemoteSet_init ''t'' empty_disk = Some s0"
    by (simp add: RemoteSet_init_def RemoteSet_load_data_def empty_disk_def)
  have miss: "rdicts ?w ''d'' = None" "rlists ?w ''l'' = None"
    by (simp_all add: Factory_init_def)
  have old: "files ?sk (rset_storage_file ?t) = Some (Parsed (JObj ?old))"
    and other: "''s'' \<noteq> rset_identifier ?t"
    by simp_all
  note layout =
    persisted_record_layout
      [where d = ?d and dk = empty_disk and dk' = dk' and l = ?l and lk = empty_disk
         and lk' = lk' and s = ?t and sk = ?sk and sk' = sk' and old = ?old and j = "''s''"]
  from layout d
  have c1: "files dk' (rdict_storage_file ?d) = Some (Parsed (of_str_dict (rdict_storage ?d)))"
    by blast
  from layout l
  have c2: "\<exists>kvs. files lk' (rlist_storage_file ?l) = Some (Parsed (JObj kvs)) \<and>
              map_of kvs (rlist_id ?l) = Some (of_str_list (rlist_storage ?l))"
    by blast
  from layout saved old other
  have c3: "\<exists>kvs. files sk' (rset_storage_file ?t) = Some (Parsed (JObj kvs)) \<and>
              map_of kvs (rset_identifier ?t) = Some (of_str_list (rset_data ?t))"
    and c4: "\<exists>kvs. files sk' (rset_storage_file ?t) = Some (Parsed (JObj kvs)) \<and>
              map_of kvs ''s'' = map_of ?old ''s''"
    by blast+
  from persisted_record_layout [where w = ?w and i = "''d''" and p = p1 and w' = w1] g1 miss
  have c5: "\<exists>d0. rdicts w1 ''d'' = Some d0 \<and> rdict_storage_file d0 = rdict_path ''d''"
    by blast
  from persisted_record_layout [where w = ?w and i = "''l''" and p = p2 and w' = w2] g2 miss
  have c6: "\<exists>l0. rlists w2 ''l'' = Some l0 \<and> rlist_storage_file l0 = rlist_path ''l''"
    by blast
  from persisted_record_layout [where i = "''t''" and sk = empty_disk and ?s0.0 = s0] i
  have c7: "rset_storage_file s0 = GLOBAL_STORAGE_FILE"
    by blast
  from c3 c4 have c34: "\<exists>kvs. files sk' GLOBAL_STORAGE_FILE = Some (Parsed (JObj kvs)) \<and>
            map_of kvs ''t'' = Some (JArr [JStr ''b'']) \<and>
            map_of kvs ''s'' = Some (JArr [JStr ''a''])"
    by (auto simp: of_str_list_def)
  from d c1 have "\<exists>dk'. RemoteDict_save_data ?d empty_disk = Inr dk' \<and>
      files dk' (rdict_path ''d'') = Some (Parsed (JObj [(''a'', JStr ''1'')]))"
    by (auto simp: of_str_dict_def)
  moreover
  from l c2 have "\<exists>lk' kvs. RemoteList_save_data ?l empty_disk = Inr lk' \<and>
      files lk' (rlist_path ''l'') = Some (Parsed (JObj kvs)) \<and>
      map_of kvs ''l'' = Some (JArr [JStr ''a''])"
    by (auto simp: of_str_list_def)
  moreover
  from saved c34 have "\<exists>sk'. RemoteSet_save_global_storage ?t ?sk = Inr sk' \<and>
      (\<exists>kvs. files sk' GLOBAL_STORAGE_FILE = Some (Parsed (JObj kvs)) \<and>
             map_of kvs ''t'' = Some (JArr [JStr ''b'']) \<and>
             map_of kvs ''s'' = Some (JArr [JStr ''a'']))"
    by blast
  moreover
  from g1 c5 have "\<exists>p w' d0. Factory_get_rdict ''d'' ?w = Some (p, w') \<and>
      rdicts w' ''d'' = Some d0 \<and> rdict_storage_file d0 = rdict_path ''d''"
    by blast
  moreover
  from g2 c6 have "\<exists>p w' l0. Factory_get_rlist ''l'' ?w = Some (p, w') \<and>
      rlists w' ''l'' = Some l0 \<and> rlist_storage_file l0 = rlist_path ''l''"
    by blast
  moreover
  from i c7 have "\<exists>s0. RemoteSet_init ''t'' empty_disk = Some s0 \<and>
      rset_storage_file s0 = GLOBAL_STORAGE_FILE"
    by blast
  ultimately show ?thesis
    by blast
qed

text \<open>
  The claim as the spec has it gives the dictionary the form \<open>{identifier: state}\<close>
  too. \<^verbatim>\<open>setItem("k", "v")\<close> on the new dictionary \<open>d\<close> writes the document
  \<open>{k: v}\<close>, not \<open>{d: {k: v}}\<close>.
\<close>

theorem RemoteDict_layout_counterexample:
  "RemoteDict_init ''d'' ''f'' empty_disk =
     Some \<lparr>rdict_id = ''d'', rdict_storage_file = ''f'', rdict_storage = [],
           rdict_modification_count = 0\<rparr> \<and>
   (\<exists>d' dk'.
      RemoteDict_setItem ''k'' ''v''
        \<lparr>rdict_id = ''d'', rdict_storage_file = ''f'', rdict_storage = [],
         rdict_modification_count = 0\<rparr> empty_disk = (Inr (), d', dk') \<and>
      files dk' ''f'' = Some (Parsed (JObj [(''k'', JStr ''v'')])) \<and>
      files dk' ''f'' \<noteq> Some (Parsed (JObj [(''d'', JObj [(''k'', JStr ''v'')])])))"
  by (simp add: RemoteDict_init_def RemoteDict_load_data_def RemoteDict_setItem_def
      RemoteDict_save_data_def fs_write_def of_str_dict_def empty_disk_def)

subsection \<open>The modification counter\<close>

lemma delete_present_shorter:
  "map_of al k = Some v \<Longrightarrow> length (AList.delete k al) < length al"
proof (induction al)
  case Nil
  then show ?case by simp
next
  case (Cons p al)
  have "length (AList.delete k al) \<le> length al"
    by (rule length_delete_le)
  with Cons show ?case
    by (cases p) (auto simp: less_Suc_eq_le split: if_splits)
qed

lemma delete_present_changes: "map_of al k = Some v \<Longrightarrow> AList.delete k al \<noteq> al"
  using delete_present_shorter [of al k v] by auto

lemma remove1_present_changes: "x \<in> set xs \<Longrightarrow> remove1 x xs \<noteq> xs"
proof
  assume "x \<in> set xs" and "remove1 x xs = xs"
  then have "length (remove1 x xs) = length xs"
    by simp
  with \<open>x \<in> set xs\<close> have "length xs - 1 = length xs"
    by (simp add: length_remove1)
  with \<open>x \<in> set xs\<close> show False
    by (cases xs) auto
qed

lemma removeAll_present_changes: "x \<in> set xs \<Longrightarrow> removeAll x xs \<noteq> xs"
proof
  assume "x \<in> set xs" and "removeAll x xs = xs"
  then have "x \<in> set (removeAll x xs)"
    by simp
  then show False
    by simp
qed

lemma drop_one_changes: "j < length xs \<Longrightarrow> take j xs @ drop (Suc j) xs \<noteq> xs"
proof
  assume "j < length xs" and "take j xs @ drop (Suc j) xs = xs"
  then have "length (take j xs @ drop (Suc j) xs) = length xs"
    by simp
  with \<open>j < length xs\<close> show False
    by simp
qed

lemma py_index_less: "py_index i n = Some j \<Longrightarrow> j < n"
  by (auto simp: py_index_def Let_def split: if_splits)

lemma dict_step_count:
  "rdict_modification_count (fst (dict_step c st)) =
     rdict_modification_count (fst st) +
       (if is_setItem c \<or> rdict_storage (fst (dict_step c st)) \<noteq> rdict_storage (fst st)
        then 1 else 0)"
proof (cases st)
  case (Pair d dk)
  show ?thesis
  proof (cases c)
    case (DictSetItem key item)
    with Pair show ?thesis
      by (simp add: RemoteDict_setItem_def Let_def split: sum.splits)
  next
    case (DictRemove key)
    with Pair show ?thesis
      by (auto simp: RemoteDict_remove_def Let_def delete_present_changes
          split: sum.splits option.splits)
  next
    case (DictPop key)
    with Pair show ?thesis
      by (auto simp: RemoteDict_pop_def Let_def delete_present_changes
          split: sum.splits option.splits)
  qed
qed

lemma list_step_count:
  "rlist_modification_count (fst (list_step c st)) =
     rlist_modification_count (fst st) +
       (if rlist_storage (fst (list_step c st)) \<noteq> rlist_storage (fst st) then 1 else 0)"
proof (cases st)
  case (Pair l lk)
  show ?thesis
  proof (cases c)
    case (ListAppend item)
    with Pair show ?thesis
      by (simp add: RemoteList_append_def Let_def split: sum.splits)
  next
    case (ListRemove item)
    with Pair show ?thesis
      by (auto simp: RemoteList_remove_def Let_def remove1_present_changes split: sum.splits)
  next
    case (ListPop index)
    with Pair show ?thesis
      by (auto simp: RemoteList_pop_def Let_def drop_one_changes
          split: sum.splits option.splits dest!: py_index_less)
  qed
qed

lemma set_step_count:
  "rset_modification_count (fst (set_step c st)) =
     rset_modification_count (fst st) +
       (if rset_data (fst (set_step c st)) \<noteq> rset_data (fst st) then 1 else 0)"
proof (cases st)
  case (Pair s sk)
  show ?thesis
  proof (cases c)
    case (SetAdd item)
    with Pair show ?thesis
      by (simp add: RemoteSet_add_def Let_def split: sum.splits)
  next
    case (SetRemove item)
    with Pair show ?thesis
      by (auto simp: RemoteSet_remove_def Let_def removeAll_present_changes split: sum.splits)
  next
    case (SetPop slot)
    with Pair show ?thesis
      by (auto simp: RemoteSet_pop_def Let_def removeAll_present_changes split: sum.splits)
  qed
qed

lemma dict_run_count:
  "rdict_modification_count (fst (dict_run cs st)) =
     rdict_modification_count (fst st) + int (dict_bumps cs st)"
proof (induction cs arbitrary: st)
  case Nil
  then show ?case by simp
next
  case (Cons c cs)
  show ?case
    using Cons.IH [of "dict_step c st"] dict_step_count [of c st]
    by (simp split: if_splits)
qed

lemma list_run_count:
  "rlist_modification_count (fst (list_run cs st)) =
     rlist_modification_count (fst st) + int (list_changes cs st)"
proof (induction cs arbitrary: st)
  case Nil
  then show ?case by simp
next
  case (Cons c cs)
  show ?case
    using Cons.IH [of "list_step c st"] list_step_count [of c st]
    by (simp split: if_splits)
qed

lemma set_run_count:
  "rset_modification_count (fst (set_run cs st)) =
     rset_modification_count (fst st) + int (set_changes cs st)"
proof (induction cs arbitrary: st)
  case Nil
  then show ?case by simp
next
  case (Cons c cs)
  show ?case
    using Cons.IH [of "set_step c st"] set_step_count [of c st]
    by (simp split: if_splits)
qed

text \<open>
  A call that raises has either changed nothing or counted its modification: the
  look-up failed before anything was assigned, or the save failed after the contents
  and the counter had been assigned.
\<close>

lemma dict_raised_count:
  "dict_raised c (d, dk) = Some e \<Longrightarrow>
   (if not_found_class e then dict_step c (d, dk) = (d, dk)
    else rdict_modification_count (fst (dict_step c (d, dk))) = rdict_modification_count d + 1)"
  by (cases c)
     (auto simp: raised_def RemoteDict_setItem_def RemoteDict_remove_def RemoteDict_pop_def
        RemoteDict_save_data_def not_found_class_def Let_def
        split: option.splits sum.splits if_splits)

lemma list_raised_count:
  "list_raised c (l, dk) = Some e \<Longrightarrow>
   (if not_found_class e \<or> e = PyOverflowError then list_step c (l, dk) = (l, dk)
    else rlist_modification_count (fst (list_step c (l, dk))) = rlist_modification_count l + 1)"
  by (cases c)
     (auto simp: raised_def RemoteList_append_def RemoteList_remove_def RemoteList_pop_def
        RemoteList_save_data_def not_found_class_def Let_def
        split: option.splits sum.splits if_splits)

lemma set_raised_count:
  "set_raised c (s, dk) = Some e \<Longrightarrow>
   (if not_found_class e then set_step c (s, dk) = (s, dk)
    else rset_modification_count (fst (set_step c (s, dk))) = rset_modification_count s + 1)"
  by (cases c)
     (auto simp: raised_def RemoteSet_add_def RemoteSet_remove_def RemoteSet_pop_def
        RemoteSet_save_global_storage_def not_found_class_def Let_def
        split: option.splits sum.splits if_splits)

text \<open>
  C1, as the program has it. A new instance has counter 0. After any sequence of
  mutating calls, the counter of a list and of a set has grown by the number of calls
  that changed the contents, and the counter of a dictionary by the number of calls that
  changed the contents or were a \<^verbatim>\<open>setItem\<close>: \<^verbatim>\<open>setItem\<close> counts a modification
  also when it assigns the value the key already has. \<^verbatim>\<open>add\<close> of an element the set
  holds changes nothing, and no call makes a counter smaller. A call that fails with a
  not-found error, or \<^verbatim>\<open>pop\<close> of a list with an index that fits no \<^verbatim>\<open>Py_ssize_t\<close>,
  changes nothing and counts nothing. A call that fails in any other way has failed in
  its save, after it assigned the contents and the counter: it has counted its
  modification.
\<close>

theorem counter_counts_mutations:
  "(RemoteDict_init i f dk = Some d0 \<longrightarrow> rdict_modification_count d0 = 0) \<and>
   (RemoteList_init i f dk = Some l0 \<longrightarrow> rlist_modification_count l0 = 0) \<and>
   (RemoteSet_init i dk = Some s0 \<longrightarrow> rset_modification_count s0 = 0) \<and>
   rdict_modification_count (fst (dict_run ds (d, dk))) =
     rdict_modification_count d + int (dict_bumps ds (d, dk)) \<and>
   rlist_modification_count (fst (list_run ls (l, dk))) =
     rlist_modification_count l + int (list_changes ls (l, dk)) \<and>
   rset_modification_count (fst (set_run ss (s, dk))) =
     rset_modification_count s + int (set_changes ss (s, dk)) \<and>
   (item \<in> set (rset_data s) \<longrightarrow> RemoteSet_add item s dk = (Inr (), s, dk)) \<and>
   rdict_modification_count d \<le> rdict_modification_count (fst (dict_step dc (d, dk))) \<and>
   rlist_modification_count l \<le> rlist_modification_count (fst (list_step lc (l, dk))) \<and>
   rset_modification_count s \<le> rset_modification_count (fst (set_step sc (s, dk))) \<and>
   (dict_raised dc (d, dk) = Some e \<and> not_found_class e \<longrightarrow> dict_step dc (d, dk) = (d, dk)) \<and>
   (list_raised lc (l, dk) = Some e \<and> (not_found_class e \<or> e = PyOverflowError) \<longrightarrow>
      list_step lc (l, dk) = (l, dk)) \<and>
   (set_raised sc (s, dk) = Some e \<and> not_found_class e \<longrightarrow> set_step sc (s, dk) = (s, dk)) \<and>
   (dict_raised dc (d, dk) = Some e \<and> \<not> not_found_class e \<longrightarrow>
      rdict_modification_count (fst (dict_step dc (d, dk))) = rdict_modification_count d + 1) \<and>
   (list_raised lc (l, dk) = Some e \<and> \<not> not_found_class e \<and> e \<noteq> PyOverflowError \<longrightarrow>
      rlist_modification_count (fst (list_step lc (l, dk))) = rlist_modification_count l + 1) \<and>
   (set_raised sc (s, dk) = Some e \<and> \<not> not_found_class e \<longrightarrow>
      rset_modification_count (fst (set_step sc (s, dk))) = rset_modification_count s + 1)"
proof (intro conjI impI; (elim conjE)?)
  assume "RemoteDict_init i f dk = Some d0"
  then show "rdict_modification_count d0 = 0"
    by (auto simp: RemoteDict_init_def)
next
  assume "RemoteList_init i f dk = Some l0"
  then show "rlist_modification_count l0 = 0"
    by (auto simp: RemoteList_init_def)
next
  assume "RemoteSet_init i dk = Some s0"
  then show "rset_modification_count s0 = 0"
    by (auto simp: RemoteSet_init_def)
next
  show "rdict_modification_count (fst (dict_run ds (d, dk))) =
     rdict_modification_count d + int (dict_bumps ds (d, dk))"
    using dict_run_count [of ds "(d, dk)"] by simp
  show "rlist_modification_count (fst (list_run ls (l, dk))) =
     rlist_modification_count l + int (list_changes ls (l, dk))"
    using list_run_count [of ls "(l, dk)"] by simp
  show "rset_modification_count (fst (set_run ss (s, dk))) =
     rset_modification_count s + int (set_changes ss (s, dk))"
    using set_run_count [of ss "(s, dk)"] by simp
next
  assume "item \<in> set (rset_data s)"
  then show "RemoteSet_add item s dk = (Inr (), s, dk)"
    by (simp add: RemoteSet_add_def)
next
  show "rdict_modification_count d \<le> rdict_modification_count (fst (dict_step dc (d, dk)))"
    using dict_step_count [of dc "(d, dk)"] by (simp split: if_splits)
  show "rlist_modification_count l \<le> rlist_modification_count (fst (list_step lc (l, dk)))"
    using list_step_count [of lc "(l, dk)"] by (simp split: if_splits)
  show "rset_modification_count s \<le> rset_modification_count (fst (set_step sc (s, dk)))"
    using set_step_count [of sc "(s, dk)"] by (simp split: if_splits)
next
  assume "dict_raised dc (d, dk) = Some e" "not_found_class e"
  then show "dict_step dc (d, dk) = (d, dk)"
    using dict_raised_count [of dc d dk e] by simp
next
  assume "list_raised lc (l, dk) = Some e" "not_found_class e \<or> e = PyOverflowError"
  then show "list_step lc (l, dk) = (l, dk)"
    using list_raised_count [of lc l dk e] by simp
next
  assume "set_raised sc (s, dk) = Some e" "not_found_class e"
  then show "set_step sc (s, dk) = (s, dk)"
    using set_raised_count [of sc s dk e] by simp
next
  assume "dict_raised dc (d, dk) = Some e" "\<not> not_found_class e"
  then show "rdict_modification_count (fst (dict_step dc (d, dk))) = rdict_modification_count d + 1"
    using dict_raised_count [of dc d dk e] by simp
next
  assume "list_raised lc (l, dk) = Some e" "\<not> not_found_class e" "e \<noteq> PyOverflowError"
  then show "rlist_modification_count (fst (list_step lc (l, dk))) = rlist_modification_count l + 1"
    using list_raised_count [of lc l dk e] by simp
next
  assume "set_raised sc (s, dk) = Some e" "\<not> not_found_class e"
  then show "rset_modification_count (fst (set_step sc (s, dk))) = rset_modification_count s + 1"
    using set_raised_count [of sc s dk e] by simp
qed

text \<open>
  The theorem at three new instances on an empty file system. The dictionary runs
  \<^verbatim>\<open>setItem(k, v)\<close> twice, then \<^verbatim>\<open>remove(k)\<close> twice: three calls count. The list
  runs \<^verbatim>\<open>append(a)\<close>, \<^verbatim>\<open>pop(5)\<close>, \<^verbatim>\<open>pop()\<close>: two calls count. The set runs
  \<^verbatim>\<open>add(a)\<close> twice, then \<^verbatim>\<open>pop()\<close> twice: two calls count. On the new list,
  \<^verbatim>\<open>pop(5)\<close> fails with \<^verbatim>\<open>rt.IndexError\<close> and changes nothing. On a file system
  where the file of the list cannot be written, \<^verbatim>\<open>append(a)\<close> fails with
  \<^verbatim>\<open>RuntimeError\<close> and leaves the counter at 1.
\<close>

theorem counter_counts_mutations_witness:
  "RemoteDict_init ''d'' ''f'' empty_disk =
     Some \<lparr>rdict_id = ''d'', rdict_storage_file = ''f'', rdict_storage = [],
           rdict_modification_count = 0\<rparr> \<and>
   rdict_modification_count
     (fst (dict_run [DictSetItem ''k'' ''v'', DictSetItem ''k'' ''v'', DictRemove ''k'', DictRemove ''k'']
        (\<lparr>rdict_id = ''d'', rdict_storage_file = ''f'', rdict_storage = [],
          rdict_modification_count = 0\<rparr>, empty_disk))) = 3 \<and>
   rlist_modification_count
     (fst (list_run [ListAppend ''a'', ListPop (Some 5), ListPop None]
        (\<lparr>rlist_id = ''l'', rlist_storage_file = ''g'', rlist_modification_count = 0,
          rlist_storage = []\<rparr>, empty_disk))) = 2 \<and>
   rset_modification_count
     (fst (set_run [SetAdd ''a'', SetAdd ''a'', SetPop 0, SetPop 0]
        (\<lparr>rset_identifier = ''s'', rset_data = [], rset_modification_count = 0,
          rset_storage_file = GLOBAL_STORAGE_FILE\<rparr>, empty_disk))) = 2 \<and>
   RemoteSet_add ''a''
     \<lparr>rset_identifier = ''s'', rset_data = [''a''], rset_modification_count = 1,
      rset_storage_file = GLOBAL_STORAGE_FILE\<rparr> empty_disk
   = (Inr (),
      \<lparr>rset_identifier = ''s'', rset_data = [''a''], rset_modification_count = 1,
       rset_storage_file = GLOBAL_STORAGE_FILE\<rparr>, empty_disk) \<and>
   list_raised (ListPop (Some 5))
     (\<lparr>rlist_id = ''l'', rlist_storage_file = ''g'', rlist_modification_count = 0,
       rlist_storage = []\<rparr>, empty_disk) = Some (RtIndexError ''Index 5 is out of range'') \<and>
   list_step (ListPop (Some 5))
     (\<lparr>rlist_id = ''l'', rlist_storage_file = ''g'', rlist_modification_count = 0,
       rlist_storage = []\<rparr>, empty_disk)
   = (\<lparr>rlist_id = ''l'', rlist_storage_file = ''g'', rlist_modification_count = 0,
       rlist_storage = []\<rparr>, empty_disk) \<and>
   list_raised (ListAppend ''a'')
     (\<lparr>rlist_id = ''l'', rlist_storage_file = ''g'', rlist_modification_count = 0,
       rlist_storage = []\<rparr>, \<lparr>files = Map.empty, unwritable = {''g''}\<rparr>) = Some PyRuntimeError \<and>
   rlist_modification_count
     (fst (list_step (ListAppend ''a'')
        (\<lparr>rlist_id = ''l'', rlist_storage_file = ''g'', rlist_modification_count = 0,
          rlist_storage = []\<rparr>, \<lparr>files = Map.empty, unwritable = {''g''}\<rparr>))) = 1"
proof -
  let ?d = "\<lparr>rdict_id = ''d'', rdict_storage_file = ''f'', rdict_storage = [],
             rdict_modification_count = 0\<rparr>"
  let ?ro = "\<lparr>files = Map.empty, unwritable = {''g''}\<rparr>"
  let ?l = "\<lparr>rlist_id = ''l'', rlist_storage_file = ''g'', rlist_modification_count = 0,
             rlist_storage = []\<rparr>"
  let ?fresh = "\<lparr>rset_identifier = ''s'', rset_data = [], rset_modification_count = 0,
                 rset_storage_file = GLOBAL_STORAGE_FILE\<rparr>"
  let ?a = "\<lparr>rset_identifier = ''s'', rset_data = [''a''], rset_modification_count = 1,
             rset_storage_file = GLOBAL_STORAGE_FILE\<rparr>"
  let ?ds = "[DictSetItem ''k'' ''v'', DictSetItem ''k'' ''v'', DictRemove ''k'', DictRemove ''k'']"
  let ?ls = "[ListAppend ''a'', ListPop (Some 5), ListPop None]"
  let ?ss = "[SetAdd ''a'', SetAdd ''a'', SetPop 0, SetPop 0]"
  have init: "RemoteDict_init ''d'' ''f'' empty_disk = Some ?d"
    by (simp add: RemoteDict_init_def RemoteDict_load_data_def empty_disk_def)
  have db: "dict_bumps ?ds (?d, empty_disk) = 3"
    by (simp add: RemoteDict_setItem_def RemoteDict_remove_def RemoteDict_save_data_def
        fs_write_def empty_disk_def Let_def)
  have lb: "list_changes ?ls (?l, empty_disk) = 2"
    by (simp add: RemoteList_append_def RemoteList_pop_def RemoteList_save_data_def
        fs_write_def empty_disk_def py_index_def Let_def)
  have sb: "set_changes ?ss (?fresh, empty_disk) = 2"
    by (simp add: RemoteSet_add_def RemoteSet_pop_def RemoteSet_save_global_storage_def
        fs_write_def empty_disk_def Let_def)
  have mem: "''a'' \<in> set (rset_data ?a)"
    by simp
  from counter_counts_mutations
         [where d = ?d and dk = empty_disk and ds = ?ds and l = ?l and ls = ?ls
            and s = ?fresh and ss = ?ss]
       db lb sb
  have runs:
    "rdict_modification_count (fst (dict_run ?ds (?d, empty_disk))) = 3"
    "rlist_modification_count (fst (list_run ?ls (?l, empty_disk))) = 2"
    "rset_modification_count (fst (set_run ?ss (?fresh, empty_disk))) = 2"
    by simp_all
  from counter_counts_mutations [where s = ?a and dk = empty_disk and item = "''a''"] mem
  have add: "RemoteSet_add ''a'' ?a empty_disk = (Inr (), ?a, empty_disk)"
    by blast
  have r1: "list_raised (ListPop (Some 5)) (?l, empty_disk) =
      Some (RtIndexError ''Index 5 is out of range'')"
    by (simp add: raised_def RemoteList_pop_def fits_ssize_t_def py_index_def index_message_def
        py_str_int_def digits10.simps)
  have nf: "not_found_class (RtIndexError ''Index 5 is out of range'')"
    by (simp add: not_found_class_def)
  from counter_counts_mutations
         [where l = ?l and dk = empty_disk and lc = "ListPop (Some 5)"
            and e = "RtIndexError ''Index 5 is out of range''"]
       r1 nf
  have s1: "list_step (ListPop (Some 5)) (?l, empty_disk) = (?l, empty_disk)"
    by blast
  have r2: "list_raised (ListAppend ''a'') (?l, ?ro) = Some PyRuntimeError"
    by (simp add: raised_def RemoteList_append_def RemoteList_save_data_def fs_write_def Let_def)
  have other: "\<not> not_found_class PyRuntimeError \<and> PyRuntimeError \<noteq> PyOverflowError"
    by (simp add: not_found_class_def)
  from counter_counts_mutations
         [where l = ?l and dk = ?ro and lc = "ListAppend ''a''" and e = PyRuntimeError]
       r2 other
  have s2: "rlist_modification_count (fst (list_step (ListAppend ''a'') (?l, ?ro))) =
      rlist_modification_count ?l + 1"
    by blast
  then have s2': "rlist_modification_count (fst (list_step (ListAppend ''a'') (?l, ?ro))) = 1"
    by simp
  from init runs add r1 s1 r2 s2' show ?thesis
    by (intro conjI)
qed

text \<open>
  The claim as the spec has it counts the calls that changed the contents, for every
  type. On a new dictionary, the second \<^verbatim>\<open>setItem("k", "v")\<close> leaves the contents
  \<open>{k: v}\<close> as they are and moves the counter from 1 to 2: the counter is 2 after a
  sequence in which one call changed the contents.
\<close>

theorem setItem_same_value_counterexample:
  "RemoteDict_init ''d'' ''f'' empty_disk =
     Some \<lparr>rdict_id = ''d'', rdict_storage_file = ''f'', rdict_storage = [],
           rdict_modification_count = 0\<rparr> \<and>
   rdict_storage
     (fst (dict_run [DictSetItem ''k'' ''v'']
        (\<lparr>rdict_id = ''d'', rdict_storage_file = ''f'', rdict_storage = [],
          rdict_modification_count = 0\<rparr>, empty_disk))) = [(''k'', ''v'')] \<and>
   rdict_storage
     (fst (dict_run [DictSetItem ''k'' ''v'', DictSetItem ''k'' ''v'']
        (\<lparr>rdict_id = ''d'', rdict_storage_file = ''f'', rdict_storage = [],
          rdict_modification_count = 0\<rparr>, empty_disk))) = [(''k'', ''v'')] \<and>
   rdict_modification_count
     (fst (dict_run [DictSetItem ''k'' ''v'']
        (\<lparr>rdict_id = ''d'', rdict_storage_file = ''f'', rdict_storage = [],
          rdict_modification_count = 0\<rparr>, empty_disk))) = 1 \<and>
   rdict_modification_count
     (fst (dict_run [DictSetItem ''k'' ''v'', DictSetItem ''k'' ''v'']
        (\<lparr>rdict_id = ''d'', rdict_storage_file = ''f'', rdict_storage = [],
          rdict_modification_count = 0\<rparr>, empty_disk))) = 2 \<and>
   dict_changes [DictSetItem ''k'' ''v'', DictSetItem ''k'' ''v'']
     (\<lparr>rdict_id = ''d'', rdict_storage_file = ''f'', rdict_storage = [],
       rdict_modification_count = 0\<rparr>, empty_disk) = 1"
  by (simp add: RemoteDict_init_def RemoteDict_load_data_def RemoteDict_setItem_def
      RemoteDict_save_data_def fs_write_def empty_disk_def Let_def)

subsection \<open>Iterators and the counter\<close>

text \<open>
  The counter stands for the contents: when the counter after a sequence of calls is the
  counter before it, the contents are the same too. This is what lets an iterator
  compare counters instead of contents.
\<close>

lemma dict_bumps_none:
  "dict_bumps cs st = 0 \<Longrightarrow> rdict_storage (fst (dict_run cs st)) = rdict_storage (fst st)"
proof (induction cs arbitrary: st)
  case Nil
  then show ?case by simp
next
  case (Cons c cs)
  from Cons.prems have step: "rdict_storage (fst (dict_step c st)) = rdict_storage (fst st)"
    and rest: "dict_bumps cs (dict_step c st) = 0"
    by (simp_all split: if_splits)
  from Cons.IH [OF rest] step show ?case
    by simp
qed

lemma list_changes_none:
  "list_changes cs st = 0 \<Longrightarrow> rlist_storage (fst (list_run cs st)) = rlist_storage (fst st)"
proof (induction cs arbitrary: st)
  case Nil
  then show ?case by simp
next
  case (Cons c cs)
  from Cons.prems have step: "rlist_storage (fst (list_step c st)) = rlist_storage (fst st)"
    and rest: "list_changes cs (list_step c st) = 0"
    by (simp_all split: if_splits)
  from Cons.IH [OF rest] step show ?case
    by simp
qed

lemma set_changes_none:
  "set_changes cs st = 0 \<Longrightarrow> rset_data (fst (set_run cs st)) = rset_data (fst st)"
proof (induction cs arbitrary: st)
  case Nil
  then show ?case by simp
next
  case (Cons c cs)
  from Cons.prems have step: "rset_data (fst (set_step c st)) = rset_data (fst st)"
    and rest: "set_changes cs (set_step c st) = 0"
    by (simp_all split: if_splits)
  from Cons.IH [OF rest] step show ?case
    by simp
qed

lemma same_counter_same_contents:
  "rdict_modification_count (fst (dict_run ds dst)) = rdict_modification_count (fst dst) \<Longrightarrow>
   rdict_storage (fst (dict_run ds dst)) = rdict_storage (fst dst)"
  "rlist_modification_count (fst (list_run ls lst)) = rlist_modification_count (fst lst) \<Longrightarrow>
   rlist_storage (fst (list_run ls lst)) = rlist_storage (fst lst)"
  "rset_modification_count (fst (set_run ss sst)) = rset_modification_count (fst sst) \<Longrightarrow>
   rset_data (fst (set_run ss sst)) = rset_data (fst sst)"
  using dict_run_count [of ds dst] list_run_count [of ls lst] set_run_count [of ss sst]
  by (simp_all add: dict_bumps_none list_changes_none set_changes_none)

lemma DictIterator_next_cancels:
  "di_expected_mod_count it \<noteq> rdict_modification_count d \<Longrightarrow>
   DictIterator_next d it = (Inl RtCancelIteration, it)"
  by (simp add: DictIterator_next_def)

lemma ListIterator_next_cancels:
  "li_expected_mod_count it \<noteq> rlist_modification_count l \<Longrightarrow>
   ListIterator_next l it = (Inl RtCancelIteration, it)"
  by (simp add: ListIterator_next_def)

lemma ListIterator_next_valid:
  "li_expected_mod_count it = rlist_modification_count l \<Longrightarrow>
   (\<exists>x. fst (ListIterator_next l it) = Inr x) \<or>
   fst (ListIterator_next l it) = Inl RtStopIteration"
  by (auto simp: ListIterator_next_def list_next_def split: prod.splits option.splits)

lemma RemoteDict_iter_captures:
  "di_expected_mod_count (RemoteDict_iter d) = rdict_modification_count d"
  by (simp add: RemoteDict_iter_def DictIterator_init_def)

lemma RemoteList_iter_captures:
  "li_expected_mod_count (RemoteList_iter l) = rlist_modification_count l"
  by (simp add: RemoteList_iter_def ListIterator_init_def)

text \<open>
  C2 at the iterator of a set. An iterator is made over the set \<open>{a}\<close>, whose counter
  is 1. Then \<^verbatim>\<open>add("b")\<close> and \<^verbatim>\<open>remove("b")\<close> run: the set is \<open>{a}\<close> again and its
  counter is 3. \<^verbatim>\<open>next\<close> returns \<open>a\<close>. A second iterator, made over the empty
  set, reports its end; after \<^verbatim>\<open>add("a")\<close> its \<^verbatim>\<open>next\<close> reports the end again. The
  iterators of a dictionary and of a list, which compare the counters first, fail with
  \<^verbatim>\<open>CancelIteration\<close> in both situations.
\<close>

theorem RemoteSetIterator_misses_mutation:
  "fst (set_run [SetAdd ''b'', SetRemove ''b'']
         (\<lparr>rset_identifier = ''s'', rset_data = [''a''], rset_modification_count = 1,
           rset_storage_file = GLOBAL_STORAGE_FILE\<rparr>, empty_disk))
     = \<lparr>rset_identifier = ''s'', rset_data = [''a''], rset_modification_count = 3,
        rset_storage_file = GLOBAL_STORAGE_FILE\<rparr> \<and>
   fst (RemoteSetIterator_next
          \<lparr>rset_identifier = ''s'', rset_data = [''a''], rset_modification_count = 3,
           rset_storage_file = GLOBAL_STORAGE_FILE\<rparr>
          (RemoteSet_iter
             \<lparr>rset_identifier = ''s'', rset_data = [''a''], rset_modification_count = 1,
              rset_storage_file = GLOBAL_STORAGE_FILE\<rparr>))
     = Inr ''a'' \<and>
   fst (RemoteSetIterator_next
          \<lparr>rset_identifier = ''s'', rset_data = [], rset_modification_count = 0,
           rset_storage_file = GLOBAL_STORAGE_FILE\<rparr>
          (RemoteSet_iter
             \<lparr>rset_identifier = ''s'', rset_data = [], rset_modification_count = 0,
              rset_storage_file = GLOBAL_STORAGE_FILE\<rparr>))
     = Inl RtStopIteration \<and>
   fst (set_run [SetAdd ''a'']
         (\<lparr>rset_identifier = ''s'', rset_data = [], rset_modification_count = 0,
           rset_storage_file = GLOBAL_STORAGE_FILE\<rparr>, empty_disk))
     = \<lparr>rset_identifier = ''s'', rset_data = [''a''], rset_modification_count = 1,
        rset_storage_file = GLOBAL_STORAGE_FILE\<rparr> \<and>
   fst (RemoteSetIterator_next
          \<lparr>rset_identifier = ''s'', rset_data = [''a''], rset_modification_count = 1,
           rset_storage_file = GLOBAL_STORAGE_FILE\<rparr>
          (snd (RemoteSetIterator_next
                  \<lparr>rset_identifier = ''s'', rset_data = [], rset_modification_count = 0,
                   rset_storage_file = GLOBAL_STORAGE_FILE\<rparr>
                  (RemoteSet_iter
                     \<lparr>rset_identifier = ''s'', rset_data = [], rset_modification_count = 0,
                      rset_storage_file = GLOBAL_STORAGE_FILE\<rparr>))))
     = Inl RtStopIteration \<and>
   fst (DictIterator_next
          \<lparr>rdict_id = ''d'', rdict_storage_file = ''f'', rdict_storage = [(''a'', ''1'')],
           rdict_modification_count = 3\<rparr>
          (RemoteDict_iter
             \<lparr>rdict_id = ''d'', rdict_storage_file = ''f'', rdict_storage = [(''a'', ''1'')],
              rdict_modification_count = 1\<rparr>))
     = Inl RtCancelIteration \<and>
   fst (ListIterator_next
          \<lparr>rlist_id = ''l'', rlist_storage_file = ''g'', rlist_modification_count = 1,
           rlist_storage = [''a'']\<rparr>
          (snd (ListIterator_next
                  \<lparr>rlist_id = ''l'', rlist_storage_file = ''g'', rlist_modification_count = 0,
                   rlist_storage = []\<rparr>
                  (RemoteList_iter
                     \<lparr>rlist_id = ''l'', rlist_storage_file = ''g'', rlist_modification_count = 0,
                      rlist_storage = []\<rparr>))))
     = Inl RtCancelIteration"
  by (simp add: RemoteSet_add_def RemoteSet_remove_def RemoteSet_save_global_storage_def
      fs_write_def empty_disk_def Let_def RemoteSetIterator_next_def RemoteSet_iter_def
      RemoteSetIterator_init_def sized_next_def py_iter_def DictIterator_next_def
      RemoteDict_iter_def DictIterator_init_def ListIterator_next_def RemoteList_iter_def
      ListIterator_init_def list_next_def)

subsection \<open>The keys of a dictionary stay different\<close>

lemma dict_step_distinct:
  "distinct (map fst (rdict_storage d)) \<Longrightarrow>
   distinct (map fst (rdict_storage (fst (dict_step c (d, dk)))))"
  by (cases c)
     (auto simp: RemoteDict_setItem_def RemoteDict_remove_def RemoteDict_pop_def Let_def
        distinct_update distinct_delete split: option.splits sum.splits)

lemma dict_run_distinct:
  "distinct (map fst (rdict_storage (fst st))) \<Longrightarrow>
   distinct (map fst (rdict_storage (fst (dict_run cs st))))"
proof (induction cs arbitrary: st)
  case Nil
  then show ?case by simp
next
  case (Cons c cs)
  obtain d dk where st: "st = (d, dk)"
    by (cases st)
  with Cons.prems have "distinct (map fst (rdict_storage (fst (dict_step c st))))"
    by (simp add: dict_step_distinct)
  from Cons.IH [OF this] show ?case
    by simp
qed

subsection \<open>\<^verbatim>\<open>hash()\<close>\<close>

lemma sort_items_unique:
  fixes kvs1 kvs2 :: "(string \<times> string) list"
  assumes "map_of kvs1 = map_of kvs2"
    and "distinct (map fst kvs1)" and "distinct (map fst kvs2)"
  shows "sort kvs1 = sort kvs2"
proof -
  from assms have same: "set kvs1 = set kvs2"
    by (simp add: map_of_inject_set)
  from assms have "distinct kvs1" "distinct kvs2"
    by (auto simp: distinct_map)
  with same show ?thesis
    by (intro sorted_distinct_set_unique) simp_all
qed

lemma items_tuple_inj: "items_tuple kvs1 = items_tuple kvs2 \<Longrightarrow> kvs1 = kvs2"
proof (induction kvs1 arbitrary: kvs2)
  case Nil
  then show ?case by (simp add: items_tuple_def)
next
  case (Cons p kvs1)
  then show ?case
    by (cases kvs2) (auto simp: items_tuple_def split: prod.splits)
qed

lemma sort_same_set:
  fixes kvs1 kvs2 :: "(string \<times> string) list"
  shows "sort kvs1 = sort kvs2 \<Longrightarrow> set kvs1 = set kvs2"
  by (metis set_sort)

lemma hash_collision:
  fixes f :: "string \<Rightarrow> 64 word"
  shows "\<exists>x y. x \<noteq> y \<and> f x = f y"
proof (rule ccontr)
  assume "\<not> (\<exists>x y. x \<noteq> y \<and> f x = f y)"
  then have "inj f"
    by (auto simp: inj_def)
  moreover have "finite (range f)"
    by (rule finite_subset [of _ UNIV]) simp_all
  ultimately have "finite (UNIV :: string set)"
    by (rule finite_imageD [rotated])
  then show False
    by (simp add: infinite_UNIV_listI)
qed

text \<open>
  C8, as the program has it. \<^verbatim>\<open>hash()\<close> is Python's \<^verbatim>\<open>hash\<close> of a value built from
  the contents: the tuple of the sorted items of a dictionary, the tuple of a list in
  its order, the frozenset of a set. Equal contents give equal hash values (for a
  dictionary: the same mapping, in whatever order the keys were inserted). The hashed
  value determines the contents, so a change of the contents changes what is hashed;
  whether the 64-bit hash value changes is up to the built-in.
\<close>

theorem hash_of_equal_contents:
  "(map_of (rdict_storage d1) = map_of (rdict_storage d2) \<and>
    distinct (map fst (rdict_storage d1)) \<and> distinct (map fst (rdict_storage d2)) \<longrightarrow>
      RemoteDict_hash H d1 = RemoteDict_hash H d2) \<and>
   (rlist_storage l1 = rlist_storage l2 \<longrightarrow> RemoteList_hash H l1 = RemoteList_hash H l2) \<and>
   (set (rset_data s1) = set (rset_data s2) \<longrightarrow> RemoteSet_hash H s1 = RemoteSet_hash H s2) \<and>
   (items_tuple (sort (rdict_storage d1)) = items_tuple (sort (rdict_storage d2)) \<longrightarrow>
      set (rdict_storage d1) = set (rdict_storage d2)) \<and>
   (HTuple (map HStr (rlist_storage l1)) = HTuple (map HStr (rlist_storage l2)) \<longrightarrow>
      rlist_storage l1 = rlist_storage l2) \<and>
   (HFrozenset (set (rset_data s1)) = HFrozenset (set (rset_data s2)) \<longrightarrow>
      set (rset_data s1) = set (rset_data s2))"
proof (intro conjI impI)
  assume "map_of (rdict_storage d1) = map_of (rdict_storage d2) \<and>
    distinct (map fst (rdict_storage d1)) \<and> distinct (map fst (rdict_storage d2))"
  then have "sort (rdict_storage d1) = sort (rdict_storage d2)"
    by (intro sort_items_unique) simp_all
  then show "RemoteDict_hash H d1 = RemoteDict_hash H d2"
    by (simp add: RemoteDict_hash_def)
next
  assume "rlist_storage l1 = rlist_storage l2"
  then show "RemoteList_hash H l1 = RemoteList_hash H l2"
    by (simp add: RemoteList_hash_def)
next
  assume "set (rset_data s1) = set (rset_data s2)"
  then show "RemoteSet_hash H s1 = RemoteSet_hash H s2"
    by (simp add: RemoteSet_hash_def)
next
  assume "items_tuple (sort (rdict_storage d1)) = items_tuple (sort (rdict_storage d2))"
  then have "sort (rdict_storage d1) = sort (rdict_storage d2)"
    by (rule items_tuple_inj)
  then show "set (rdict_storage d1) = set (rdict_storage d2)"
    by (rule sort_same_set)
next
  assume "HTuple (map HStr (rlist_storage l1)) = HTuple (map HStr (rlist_storage l2))"
  then show "rlist_storage l1 = rlist_storage l2"
    by (simp add: inj_map_eq_map inj_def)
next
  assume "HFrozenset (set (rset_data s1)) = HFrozenset (set (rset_data s2))"
  then show "set (rset_data s1) = set (rset_data s2)"
    by simp
qed

text \<open>
  The theorem at the dictionaries \<open>{a: 1, b: 2}\<close> and \<open>{b: 2, a: 1}\<close>, at two equal
  lists and at the sets \<open>{a, b}\<close> and \<open>{b, a}\<close>, for a hash function that tells the
  empty tuple from everything else. The two dictionaries give the same sorted tuple.
\<close>

theorem hash_of_equal_contents_witness:
  "RemoteDict_hash (\<lambda>h. if h = HTuple [] then 0 else 1)
     \<lparr>rdict_id = ''d'', rdict_storage_file = ''f'',
      rdict_storage = [(''a'', ''1''), (''b'', ''2'')], rdict_modification_count = 2\<rparr>
   = RemoteDict_hash (\<lambda>h. if h = HTuple [] then 0 else 1)
     \<lparr>rdict_id = ''e'', rdict_storage_file = ''g'',
      rdict_storage = [(''b'', ''2''), (''a'', ''1'')], rdict_modification_count = 5\<rparr> \<and>
   RemoteList_hash (\<lambda>h. if h = HTuple [] then 0 else 1)
     \<lparr>rlist_id = ''l'', rlist_storage_file = ''f'', rlist_modification_count = 1,
      rlist_storage = [''a'']\<rparr>
   = RemoteList_hash (\<lambda>h. if h = HTuple [] then 0 else 1)
     \<lparr>rlist_id = ''m'', rlist_storage_file = ''g'', rlist_modification_count = 3,
      rlist_storage = [''a'']\<rparr> \<and>
   RemoteSet_hash (\<lambda>h. if h = HTuple [] then 0 else 1)
     \<lparr>rset_identifier = ''s'', rset_data = [''a'', ''b''], rset_modification_count = 2,
      rset_storage_file = GLOBAL_STORAGE_FILE\<rparr>
   = RemoteSet_hash (\<lambda>h. if h = HTuple [] then 0 else 1)
     \<lparr>rset_identifier = ''t'', rset_data = [''b'', ''a''], rset_modification_count = 4,
      rset_storage_file = GLOBAL_STORAGE_FILE\<rparr> \<and>
   items_tuple (sort [(''a'', ''1''), (''b'', ''2'')]) =
     items_tuple (sort [(''b'', ''2''), (''a'', ''1'')]) \<and>
   set [(''a'', ''1''), (''b'', ''2'')] = set [(''b'', ''2''), (''a'', ''1'')]"
proof -
  let ?H = "\<lambda>h. if h = HTuple [] then 0 else (1 :: 64 word)"
  let ?d1 = "\<lparr>rdict_id = ''d'', rdict_storage_file = ''f'',
      rdict_storage = [(''a'', ''1''), (''b'', ''2'')], rdict_modification_count = 2\<rparr>"
  let ?d2 = "\<lparr>rdict_id = ''e'', rdict_storage_file = ''g'',
      rdict_storage = [(''b'', ''2''), (''a'', ''1'')], rdict_modification_count = 5\<rparr>"
  let ?l1 = "\<lparr>rlist_id = ''l'', rlist_storage_file = ''f'', rlist_modification_count = 1,
      rlist_storage = [''a'']\<rparr>"
  let ?l2 = "\<lparr>rlist_id = ''m'', rlist_storage_file = ''g'', rlist_modification_count = 3,
      rlist_storage = [''a'']\<rparr>"
  let ?a = "\<lparr>rset_identifier = ''s'', rset_data = [''a'', ''b''], rset_modification_count = 2,
      rset_storage_file = GLOBAL_STORAGE_FILE\<rparr>"
  let ?b = "\<lparr>rset_identifier = ''t'', rset_data = [''b'', ''a''], rset_modification_count = 4,
      rset_storage_file = GLOBAL_STORAGE_FILE\<rparr>"
  have d: "map_of (rdict_storage ?d1) = map_of (rdict_storage ?d2) \<and>
    distinct (map fst (rdict_storage ?d1)) \<and> distinct (map fst (rdict_storage ?d2))"
    by (auto simp: fun_eq_iff)
  have l: "rlist_storage ?l1 = rlist_storage ?l2"
    by simp
  have s: "set (rset_data ?a) = set (rset_data ?b)"
    by auto
  have "sort (rdict_storage ?d1) = sort (rdict_storage ?d2)"
    using d by (intro sort_items_unique) simp_all
  then have t: "items_tuple (sort (rdict_storage ?d1)) = items_tuple (sort (rdict_storage ?d2))"
    by simp
  note at = hash_of_equal_contents [of ?d1 ?d2 ?H ?l1 ?l2 ?a ?b]
  from at d l s
  have "RemoteDict_hash ?H ?d1 = RemoteDict_hash ?H ?d2"
    and "RemoteList_hash ?H ?l1 = RemoteList_hash ?H ?l2"
    and "RemoteSet_hash ?H ?a = RemoteSet_hash ?H ?b"
    by blast+
  moreover from at t have "set (rdict_storage ?d1) = set (rdict_storage ?d2)"
    by blast
  ultimately show ?thesis
    using t by simp
qed

text \<open>
  The claim as the spec has it says that every mutation that changes the contents
  changes the hash value. Whatever function the built-in \<^verbatim>\<open>hash\<close> is, there are a
  dictionary with one key and a \<^verbatim>\<open>setItem\<close> on that key that changes the value
  stored and leaves the hash value as it is: the values are infinitely many, the hash
  values are not.
\<close>

theorem hash_unchanged_counterexample:
  "\<forall>H :: hashable \<Rightarrow> 64 word.
     \<exists>v v' d'.
       fst (snd (RemoteDict_setItem ''k'' v'
          \<lparr>rdict_id = ''d'', rdict_storage_file = ''f'', rdict_storage = [(''k'', v)],
           rdict_modification_count = 1\<rparr> empty_disk)) = d' \<and>
       rdict_storage d' \<noteq> [(''k'', v)] \<and>
       RemoteDict_hash H d' =
         RemoteDict_hash H
           \<lparr>rdict_id = ''d'', rdict_storage_file = ''f'', rdict_storage = [(''k'', v)],
            rdict_modification_count = 1\<rparr>"
proof
  fix H :: "hashable \<Rightarrow> 64 word"
  obtain v v' where "v \<noteq> v'"
    and same: "H (items_tuple [(''k'', v)]) = H (items_tuple [(''k'', v')])"
    using hash_collision [of "\<lambda>x. H (items_tuple [(''k'', x)])"] by blast
  then show "\<exists>v v' d'.
       fst (snd (RemoteDict_setItem ''k'' v'
          \<lparr>rdict_id = ''d'', rdict_storage_file = ''f'', rdict_storage = [(''k'', v)],
           rdict_modification_count = 1\<rparr> empty_disk)) = d' \<and>
       rdict_storage d' \<noteq> [(''k'', v)] \<and>
       RemoteDict_hash H d' =
         RemoteDict_hash H
           \<lparr>rdict_id = ''d'', rdict_storage_file = ''f'', rdict_storage = [(''k'', v)],
            rdict_modification_count = 1\<rparr>"
    by (intro exI [of _ v] exI [of _ v'])
       (simp add: RemoteDict_setItem_def RemoteDict_save_data_def fs_write_def empty_disk_def
          RemoteDict_hash_def Let_def)
qed

subsection \<open>Error records of the dispatcher\<close>

text \<open>
  The errors \<^verbatim>\<open>hacer_evento\<close> returns are the three codes \<open>MalformedOperation\<close>,
  \<open>UnknownObjectType\<close> and \<open>OperationNotSupported\<close>, each with no result. When the
  loop reaches the end of a batch, every descriptor that got such a code and has an
  \<open>id\<close> that is not null has its record in the response.
\<close>

lemma returning_no_error: "returning f rw \<noteq> (Inr (result, Some e), w')"
  by (cases rw) (auto simp: returning_def split: sum.splits)

lemma with_arg_error:
  "with_arg a w k = Some (Inr (result, Some e), w') \<Longrightarrow>
   \<exists>v. k v = Some (Inr (result, Some e), w')"
  by (auto simp: with_arg_def split: option.splits sum.splits)

lemma process_common_operation_error:
  assumes "process_common_operation py prx operation args w = Some (Inr (result, Some e), w')"
  shows "result = None \<and> e = ''OperationNotSupported''"
  using assms
  by (auto simp: process_common_operation_def returning_no_error split: if_splits
      dest!: with_arg_error)

lemma process_rlist_no_error:
  "process_rlist prx operation args w \<noteq> Some (Inr (result, Some e), w')"
proof (cases prx)
  case (RListPrx i)
  show ?thesis
  proof
    assume "process_rlist prx operation args w = Some (Inr (result, Some e), w')"
    with RListPrx show False
      by (auto simp: returning_no_error split: if_splits option.splits bool.splits
          dest!: with_arg_error)
  qed
qed simp_all

lemma process_rdict_no_error:
  "process_rdict prx operation args w \<noteq> Some (Inr (result, Some e), w')"
proof (cases prx)
  case (RDictPrx i)
  show ?thesis
  proof
    assume "process_rdict prx operation args w = Some (Inr (result, Some e), w')"
    with RDictPrx show False
      by (auto simp: returning_no_error split: if_splits dest!: with_arg_error)
  qed
qed simp_all

lemma process_rset_no_error:
  "process_rset py prx operation args w \<noteq> Some (Inr (result, Some e), w')"
proof (cases prx)
  case (RSetPrx i)
  show ?thesis
  proof
    assume "process_rset py prx operation args w = Some (Inr (result, Some e), w')"
    with RSetPrx show False
      by (auto simp: returning_no_error split: if_splits dest!: with_arg_error)
  qed
qed simp_all

lemma hacer_evento_error:
  assumes "hacer_evento py w event = Some (Inr (result, Some e), w')"
  shows "result = None \<and>
         e \<in> {''MalformedOperation'', ''UnknownObjectType'', ''OperationNotSupported''}"
  using assms
  by (auto simp: hacer_evento_def Let_def process_rlist_no_error process_rdict_no_error
        process_rset_no_error
      split: option.splits prod.splits sum.splits if_splits
      dest: process_common_operation_error)

lemma hacer_evento_malformed:
  "map_of event ''id'' = None \<or> map_of event ''object_type'' = None \<or>
   map_of event ''object_identifier'' = None \<or> map_of event ''operation'' = None \<Longrightarrow>
   hacer_evento py w event = Some (Inr (None, Some ''MalformedOperation''), w)"
  by (auto simp: hacer_evento_def split: option.splits)

lemma respond_error:
  "e \<noteq> [] \<Longrightarrow> map_of op ''id'' = Some i \<Longrightarrow> i \<noteq> JNull \<Longrightarrow>
   respond op (result, Some e) =
     Inr [JObj [(''id'', i), (''status'', JStr ''error''), (''error'', JStr e)]]"
  by (cases e; cases i) (simp_all add: respond_def)

lemma process_events_keeps:
  "process_events py ops message w = Some (Inr out, w') \<Longrightarrow> set message \<subseteq> set out"
proof (induction ops arbitrary: message w)
  case Nil
  then show ?case by simp
next
  case (Cons op ops)
  from Cons.prems obtain w1 recs where
    "process_events py ops (message @ recs) w1 = Some (Inr out, w')"
    by (auto split: option.splits prod.splits sum.splits)
  from Cons.IH [OF this] show ?case
    by simp
qed

lemma process_events_reports:
  "process_events py ops message w = Some (Inr out, w') \<Longrightarrow>
   (op, result, Some e) \<in> set (replies py ops w) \<Longrightarrow>
   map_of op ''id'' = Some i \<Longrightarrow> i \<noteq> JNull \<Longrightarrow>
   JObj [(''id'', i), (''status'', JStr ''error''), (''error'', JStr e)] \<in> set out"
proof (induction ops arbitrary: message w)
  case Nil
  then show ?case by simp
next
  case (Cons op1 ops)
  from Cons.prems(1) obtain r w1 recs where
    h: "hacer_evento py w op1 = Some (Inr r, w1)" and
    resp: "respond op1 r = Inr recs" and
    rest: "process_events py ops (message @ recs) w1 = Some (Inr out, w')"
    by (auto split: option.splits prod.splits sum.splits)
  from Cons.prems(2) h
  consider "(op, result, Some e) = (op1, r)" | "(op, result, Some e) \<in> set (replies py ops w1)"
    by auto
  then show ?case
  proof cases
    case 1
    with h have "hacer_evento py w op = Some (Inr (result, Some e), w1)"
      by simp
    from hacer_evento_error [OF this] have "e \<noteq> []"
      by auto
    from respond_error [OF this Cons.prems(3) Cons.prems(4)] resp 1
    have "JObj [(''id'', i), (''status'', JStr ''error''), (''error'', JStr e)] \<in> set (message @ recs)"
      by auto
    with process_events_keeps [OF rest] show ?thesis
      by blast
  next
    case 2
    from Cons.IH [OF rest 2 Cons.prems(3) Cons.prems(4)] show ?thesis .
  qed
qed

lemma process_events_append:
  "process_events py ops1 message w = Some (Inr m1, w1) \<Longrightarrow>
   process_events py (ops1 @ ops2) message w = process_events py ops2 m1 w1"
proof (induction ops1 arbitrary: message w)
  case Nil
  then show ?case by simp
next
  case (Cons op ops1)
  from Cons.prems obtain r w0 recs where
    h: "hacer_evento py w op = Some (Inr r, w0)" and
    resp: "respond op r = Inr recs" and
    rest: "process_events py ops1 (message @ recs) w0 = Some (Inr m1, w1)"
    by (auto split: option.splits prod.splits sum.splits)
  from Cons.IH [OF rest] h resp show ?case
    by simp
qed

lemma respond_without_id:
  "map_of op ''id'' = None \<or> map_of op ''id'' = Some JNull \<Longrightarrow> c \<noteq> [] \<Longrightarrow>
   respond op (result, Some c) = Inr []"
  by (cases c) (auto simp: respond_def)

lemma hacer_evento_getItem_missing:
  assumes cached: "rdicts w i = Some d" and named: "i \<noteq> []"
    and missing: "map_of (rdict_storage d) key = None"
  shows "hacer_evento py w
           [(''id'', n), (''object_type'', JStr ''RDict''), (''object_identifier'', JStr i),
            (''operation'', JStr ''getItem''), (''args'', JObj [(''key'', JStr key)])]
         = Some (Inl (RtKeyError key), w)"
proof -
  from cached have same: "w\<lparr>rdicts := (rdicts w)(i \<mapsto> d), disk := disk w\<rparr> = w"
    by (simp add: map_upd_triv)
  from cached named have prx:
    "get_rtype_proxy w (JStr ''RDict'') (JStr i) = Some (Some (RDictPrx i), w)"
    by (simp add: get_rtype_proxy_def Factory_get_rdict_def py_or_def)
  have common:
    "process_common_operation py (RDictPrx i) (JStr ''getItem'') (JObj [(''key'', JStr key)]) w
     = Some (Inr (None, None), w)"
    by (simp add: process_common_operation_def)
  from cached missing same have own:
    "process_rdict (RDictPrx i) (JStr ''getItem'') (JObj [(''key'', JStr key)]) w
     = Some (Inl (RtKeyError key), w)"
    by (simp add: with_arg_def arg_str_def returning_def with_rdict_def partial_query_def
        RemoteDict_getItem_def)
  from prx common own show ?thesis
    by (simp add: hacer_evento_def)
qed

text \<open>
  C6. \<^verbatim>\<open>hacer_evento\<close> is called with no \<^verbatim>\<open>try\<close> around it, and catches nothing
  itself. So an exception of a remote call, such as the \<^verbatim>\<open>rt.KeyError\<close> of
  \<^verbatim>\<open>getItem\<close> for a key the dictionary has not, is no error record: it ends the loop
  over the batch, whatever records the descriptors before it had gathered, and nothing
  is published for the batch. Apart from that, a descriptor for which \<^verbatim>\<open>hacer_evento\<close>
  returns an error code gets no record when its \<open>id\<close> is missing or null.
\<close>

theorem collection_exception_ends_batch:
  "(process_events py ops1 [] w = Some (Inr message, w1) \<and>
    hacer_evento py w1 op = Some (Inl e, w2) \<longrightarrow>
      process_events py (ops1 @ op # ops2) [] w = Some (Inl e, w2) \<and>
      handle_batch py (ops1 @ op # ops2) w = Some (Inl e, w2)) \<and>
   (rdicts w i = Some d \<and> i \<noteq> [] \<and> map_of (rdict_storage d) key = None \<longrightarrow>
      hacer_evento py w
        [(''id'', n), (''object_type'', JStr ''RDict''), (''object_identifier'', JStr i),
         (''operation'', JStr ''getItem''), (''args'', JObj [(''key'', JStr key)])]
      = Some (Inl (RtKeyError key), w)) \<and>
   ((map_of op ''id'' = None \<or> map_of op ''id'' = Some JNull) \<and> c \<noteq> [] \<longrightarrow>
      respond op (result, Some c) = Inr [])"
proof (intro conjI impI; (elim conjE)?)
  assume before: "process_events py ops1 [] w = Some (Inr message, w1)"
    and raises: "hacer_evento py w1 op = Some (Inl e, w2)"
  from process_events_append [OF before, of "op # ops2"] raises
  show run: "process_events py (ops1 @ op # ops2) [] w = Some (Inl e, w2)"
    by simp
  then show "handle_batch py (ops1 @ op # ops2) w = Some (Inl e, w2)"
    by (simp add: handle_batch_def)
next
  assume "rdicts w i = Some d" "i \<noteq> []" "map_of (rdict_storage d) key = None"
  then show "hacer_evento py w
        [(''id'', n), (''object_type'', JStr ''RDict''), (''object_identifier'', JStr i),
         (''operation'', JStr ''getItem''), (''args'', JObj [(''key'', JStr key)])]
      = Some (Inl (RtKeyError key), w)"
    by (rule hacer_evento_getItem_missing)
next
  assume "map_of op ''id'' = None \<or> map_of op ''id'' = Some JNull" "c \<noteq> []"
  then show "respond op (result, Some c) = Inr []"
    by (rule respond_without_id)
qed

text \<open>
  The theorem at a batch of three descriptors on a new server with an empty file system.
  The first asks the list \<open>L1\<close> for \<open>iter\<close> and gets the record of the error
  \<open>OperationNotSupported\<close>; the second asks the dictionary \<open>D1\<close> for the key
  \<open>missing\<close>; the third asks the list for its length. The second raises
  \<^verbatim>\<open>rt.KeyError\<close>, and the batch ends with that exception: no response, the record of
  the first descriptor is lost, the third is never run. Without the second descriptor the
  batch has a response of two records. A descriptor without \<open>id\<close>, which fails with
  \<open>MalformedOperation\<close>, adds no record.
\<close>

theorem collection_exception_ends_batch_witness:
  "\<exists>w1 w2.
     process_events \<lparr>py_hash = (\<lambda>h. 0), py_set_pop = (\<lambda>xs. 0)\<rparr>
       [[(''id'', JNum 1), (''object_type'', JStr ''RList''),
         (''object_identifier'', JStr ''L1''), (''operation'', JStr ''iter'')]]
       [] (Factory_init empty_disk)
     = Some (Inr [JObj [(''id'', JNum 1), (''status'', JStr ''error''),
                        (''error'', JStr ''OperationNotSupported'')]], w1) \<and>
     hacer_evento \<lparr>py_hash = (\<lambda>h. 0), py_set_pop = (\<lambda>xs. 0)\<rparr> w1
       [(''id'', JNum 2), (''object_type'', JStr ''RDict''),
        (''object_identifier'', JStr ''D1''), (''operation'', JStr ''getItem''),
        (''args'', JObj [(''key'', JStr ''missing'')])]
     = Some (Inl (RtKeyError ''missing''), w2) \<and>
     handle_batch \<lparr>py_hash = (\<lambda>h. 0), py_set_pop = (\<lambda>xs. 0)\<rparr>
       [[(''id'', JNum 1), (''object_type'', JStr ''RList''),
         (''object_identifier'', JStr ''L1''), (''operation'', JStr ''iter'')],
        [(''id'', JNum 2), (''object_type'', JStr ''RDict''),
         (''object_identifier'', JStr ''D1''), (''operation'', JStr ''getItem''),
         (''args'', JObj [(''key'', JStr ''missing'')])],
        [(''id'', JNum 3), (''object_type'', JStr ''RList''),
         (''object_identifier'', JStr ''L1''), (''operation'', JStr ''length'')]]
       (Factory_init empty_disk)
     = Some (Inl (RtKeyError ''missing''), w2) \<and>
     hacer_evento \<lparr>py_hash = (\<lambda>h. 0), py_set_pop = (\<lambda>xs. 0)\<rparr> w2
       [(''id'', JNum 2), (''object_type'', JStr ''RDict''),
        (''object_identifier'', JStr ''D1''), (''operation'', JStr ''getItem''),
        (''args'', JObj [(''key'', JStr ''missing'')])]
     = Some (Inl (RtKeyError ''missing''), w2) \<and>
     handle_batch \<lparr>py_hash = (\<lambda>h. 0), py_set_pop = (\<lambda>xs. 0)\<rparr>
       [[(''id'', JNum 1), (''object_type'', JStr ''RList''),
         (''object_identifier'', JStr ''L1''), (''operation'', JStr ''iter'')],
        [(''id'', JNum 3), (''object_type'', JStr ''RList''),
         (''object_identifier'', JStr ''L1''), (''operation'', JStr ''length'')]]
       (Factory_init empty_disk)
     = Some (Inr (Some [JObj [(''id'', JNum 1), (''status'', JStr ''error''),
                              (''error'', JStr ''OperationNotSupported'')],
                        JObj [(''id'', JNum 3), (''status'', JStr ''ok''),
                              (''result'', JNum 0)]]), w1) \<and>
     respond
       [(''object_type'', JStr ''RList''), (''object_identifier'', JStr ''L1''),
        (''operation'', JStr ''length'')]
       (None, Some ''MalformedOperation'') = Inr []"
proof -
  let ?py = "\<lparr>py_hash = (\<lambda>h. 0), py_set_pop = (\<lambda>xs. 0)\<rparr>"
  let ?op1 = "[(''id'', JNum 1), (''object_type'', JStr ''RList''),
         (''object_identifier'', JStr ''L1''), (''operation'', JStr ''iter'')]"
  let ?op2 = "[(''id'', JNum 2), (''object_type'', JStr ''RDict''),
        (''object_identifier'', JStr ''D1''), (''operation'', JStr ''getItem''),
        (''args'', JObj [(''key'', JStr ''missing'')])]"
  let ?op3 = "[(''id'', JNum 3), (''object_type'', JStr ''RList''),
         (''object_identifier'', JStr ''L1''), (''operation'', JStr ''length'')]"
  let ?op4 = "[(''object_type'', JStr ''RList''), (''object_identifier'', JStr ''L1''),
        (''operation'', JStr ''length'')]"
  let ?rec1 = "JObj [(''id'', JNum 1), (''status'', JStr ''error''),
                     (''error'', JStr ''OperationNotSupported'')]"
  let ?rec3 = "JObj [(''id'', JNum 3), (''status'', JStr ''ok''), (''result'', JNum 0)]"
  let ?w = "Factory_init empty_disk"
  let ?l = "\<lparr>rlist_id = ''L1'', rlist_storage_file = rlist_path ''L1'',
             rlist_modification_count = 0, rlist_storage = []\<rparr>"
  let ?d = "\<lparr>rdict_id = ''D1'', rdict_storage_file = rdict_path ''D1'', rdict_storage = [],
             rdict_modification_count = 0\<rparr>"
  let ?w1 = "?w\<lparr>rlists := [''L1'' \<mapsto> ?l]\<rparr>"
  let ?w2 = "?w1\<lparr>rdicts := [''D1'' \<mapsto> ?d]\<rparr>"
  have h1: "hacer_evento ?py ?w ?op1 = Some (Inr (None, Some ''OperationNotSupported''), ?w1)"
    by (simp add: hacer_evento_def get_rtype_proxy_def Factory_get_rlist_def py_or_def
        RemoteList_init_def RemoteList_load_data_def Factory_init_def empty_disk_def
        process_common_operation_def)
  then have first: "process_events ?py [?op1] [] ?w = Some (Inr [?rec1], ?w1)"
    by (simp add: respond_def)
  have h2: "hacer_evento ?py ?w1 ?op2 = Some (Inl (RtKeyError ''missing''), ?w2)"
    by (simp add: hacer_evento_def get_rtype_proxy_def Factory_get_rdict_def py_or_def
        RemoteDict_init_def RemoteDict_load_data_def Factory_init_def empty_disk_def
        process_common_operation_def with_arg_def arg_str_def returning_def with_rdict_def
        partial_query_def RemoteDict_getItem_def)
  from collection_exception_ends_batch
         [where py = ?py and ?ops1.0 = "[?op1]" and w = ?w and message = "[?rec1]"
            and ?w1.0 = ?w1 and op = ?op2 and e = "RtKeyError ''missing''" and ?w2.0 = ?w2
            and ?ops2.0 = "[?op3]"]
       first h2
  have batch: "handle_batch ?py [?op1, ?op2, ?op3] ?w = Some (Inl (RtKeyError ''missing''), ?w2)"
    by simp
  have cached: "rdicts ?w2 ''D1'' = Some ?d \<and> ''D1'' \<noteq> [] \<and>
      map_of (rdict_storage ?d) ''missing'' = None"
    by simp
  from collection_exception_ends_batch
         [where py = ?py and w = ?w2 and i = "''D1''" and d = ?d and key = "''missing''"
            and n = "JNum 2"]
       cached
  have again: "hacer_evento ?py ?w2 ?op2 = Some (Inl (RtKeyError ''missing''), ?w2)"
    by blast
  have h3: "hacer_evento ?py ?w1 ?op3 = Some (Inr (Some (JNum 0), None), ?w1)"
    by (simp add: hacer_evento_def get_rtype_proxy_def Factory_get_rlist_def py_or_def
        Factory_init_def process_common_operation_def returning_def with_rlist_def query_def
        RemoteList_length_def)
  from h1 h3 have other:
    "handle_batch ?py [?op1, ?op3] ?w = Some (Inr (Some [?rec1, ?rec3]), ?w1)"
    by (simp add: handle_batch_def respond_def)
  have noid: "(map_of ?op4 ''id'' = None \<or> map_of ?op4 ''id'' = Some JNull) \<and>
      ''MalformedOperation'' \<noteq> []"
    by simp
  from collection_exception_ends_batch
         [where op = ?op4 and c = "''MalformedOperation''" and result = None]
       noid
  have silent: "respond ?op4 (None, Some ''MalformedOperation'') = Inr []"
    by blast
  from first h2 batch again other silent show ?thesis
    by (intro exI [of _ ?w1] exI [of _ ?w2] conjI)
qed

end
